theory Spec2Isabelle
  imports Main
begin

section \<open>Values crossing the SDK boundary\<close>

text \<open>
  Payloads and backend bodies are duck-typed JavaScript values. Only the parts of the
  language the two source files rely on are modelled: truthiness (\<open>!x\<close>, \<open>if (x)\<close>),
  property reads, the destructuring default (applies to \<open>undefined\<close> only) and the
  nullish coalescing operator \<open>??\<close>. Numbers are integers; no arithmetic is done on
  payload numbers.
\<close>

datatype json =
    JUndefined
  | JNull
  | JBool bool
  | JNum int
  | JStr string
  | JArr "json list"
  | JObj "(string \<times> json) list"

fun truthy :: "json \<Rightarrow> bool" where
  "truthy JUndefined = False"
| "truthy JNull = False"
| "truthy (JBool b) = b"
| "truthy (JNum n) = (n \<noteq> 0)"
| "truthy (JStr s) = (s \<noteq> [])"
| "truthy (JArr xs) = True"
| "truthy (JObj kvs) = True"

definition nullish :: "json \<Rightarrow> bool" where
  "nullish v = (v = JUndefined \<or> v = JNull)"

text \<open>
  \<open>read_prop v k\<close> is the property read \<open>v.k\<close> on a value that is not nullish: an absent
  key reads as \<open>undefined\<close>. Reading a property of \<open>undefined\<close> or \<open>null\<close> throws in
  JavaScript; every caller below tests \<open>nullish\<close> first and raises the \<open>TypeError\<close>.
\<close>

fun read_prop :: "json \<Rightarrow> string \<Rightarrow> json" where
  "read_prop (JObj kvs) k = (case map_of kvs k of Some v \<Rightarrow> v | None \<Rightarrow> JUndefined)"
| "read_prop v k = JUndefined"

definition default_to :: "json \<Rightarrow> json \<Rightarrow> json" where
  \<comment> \<open>the destructuring default \<open>{ x = d } = obj\<close>\<close>
  "default_to v d = (if v = JUndefined then d else v)"

definition nullish_coalesce :: "json \<Rightarrow> json \<Rightarrow> json" where
  \<comment> \<open>\<open>a ?? b\<close>\<close>
  "nullish_coalesce a b = (if nullish a then b else a)"

section \<open>Errors\<close>

text \<open>
  \<open>Error m\<close> is \<open>new Error(m)\<close> constructed by the SDK code itself, \<open>TypeError\<close> a
  runtime type error of the language, \<open>ZodError s\<close> the failure of \<open>s.parse\<close>, and
  \<open>ApiError m\<close> a rejection of the generated HTTP client.
\<close>

datatype error =
    Error string
  | TypeError string
  | ZodError string
  | ApiError string
  | ComposioError error

text \<open>
  Modelled from the spec: \<open>CEG.handleAllError\<close> (\<open>../utils/error\<close>) is missing from the
  sources. The spec says that every thrown or rejected error passes through a single
  normalisation step that converts it into the unified error type of the SDK before it
  is raised again; the unified error keeps the error it was made from.
\<close>

definition CEG_handleAllError :: "error \<Rightarrow> error" where
  "CEG_handleAllError e = ComposioError e"

section \<open>Data transfer objects\<close>

record auth_field =
  name :: string
  required :: bool
  expected_from_customer :: bool

record auth_scheme =
  mode :: string
  scheme_fields :: "auth_field list"

record app =
  appId :: json
  auth_schemes :: "auth_scheme list option"

record RequiredParamsResponse =
  required_fields :: "string list"
  optional_fields :: "string list"
  expected_from_user :: "string list"

text \<open>
  \<open>authSchemesObject\<close> is a plain object made by \<open>{}\<close> and used as a dictionary. It has
  its own properties, and behind them its prototype: \<open>Object.prototype\<close>, unless an
  assignment to the key \<open>__proto__\<close> has put an entry there (the inherited setter of
  \<open>__proto__\<close> replaces the prototype instead of making a property). The prototype of such
  an entry is \<open>Object.prototype\<close> again.
\<close>

record plain_object =
  own_properties :: "string \<rightharpoonup> RequiredParamsResponse"
  prototype_entry :: "RequiredParamsResponse option"

text \<open>
  What a property read on that object gives: \<open>undefined\<close>, an entry, a bucket of the entry
  that is the prototype, or the member of \<open>Object.prototype\<close> of that name.
\<close>

datatype property_value =
    Undefined
  | Entry RequiredParamsResponse
  | Bucket "string list"
  | ObjectPrototype string

definition Object_prototype_names :: "string list" where
  \<comment> \<open>the properties of \<open>Object.prototype\<close> (ECMA-262 with its Annex B)\<close>
  "Object_prototype_names =
     [''constructor'', ''__defineGetter__'', ''__defineSetter__'', ''hasOwnProperty'',
      ''__lookupGetter__'', ''__lookupSetter__'', ''isPrototypeOf'', ''propertyIsEnumerable'',
      ''toString'', ''valueOf'', ''__proto__'', ''toLocaleString'']"

definition empty_object :: plain_object where
  \<comment> \<open>\<open>{}\<close>\<close>
  "empty_object = \<lparr>own_properties = Map.empty, prototype_entry = None\<rparr>"

definition assign_property ::
  "plain_object \<Rightarrow> string \<Rightarrow> RequiredParamsResponse \<Rightarrow> plain_object" where
  \<comment> \<open>\<open>obj[k] = v\<close> for an object \<open>v\<close>\<close>
  "assign_property obj k v =
     (if k = ''__proto__'' then obj\<lparr>prototype_entry := Some v\<rparr>
      else obj\<lparr>own_properties := (own_properties obj)(k \<mapsto> v)\<rparr>)"

definition read_property :: "plain_object \<Rightarrow> string \<Rightarrow> property_value" where
  \<comment> \<open>\<open>obj[k]\<close>: the own property, else what the prototype chain has under \<open>k\<close>\<close>
  "read_property obj k =
     (case own_properties obj k of
        Some v \<Rightarrow> Entry v
      | None \<Rightarrow>
          (case prototype_entry obj of
             Some p \<Rightarrow>
               if k = ''__proto__'' then Entry p
               else if k = ''required_fields'' then Bucket (required_fields p)
               else if k = ''optional_fields'' then Bucket (optional_fields p)
               else if k = ''expected_from_user'' then Bucket (expected_from_user p)
               else if k \<in> set Object_prototype_names then ObjectPrototype k
               else Undefined
           | None \<Rightarrow>
               if k \<in> set Object_prototype_names then ObjectPrototype k else Undefined))"

record RequiredParamsFullResponse =
  availableAuthSchemes :: "string list"
  authSchemes :: plain_object

record ConnectionRequest =
  connectionStatus :: json
  connectedAccountId :: json
  redirectUrl :: json

section \<open>The world outside the SDK\<close>

text \<open>
  An event is the pair handed to the logger: the event kind and the object
  \<open>{ method, file, params }\<close> (fields \<open>method_name\<close>, \<open>file_name\<close>, \<open>params\<close>).
\<close>

datatype telemetry_events = SDK_METHOD_INVOKED

record telemetry_event =
  event :: telemetry_events
  method_name :: string
  file_name :: string
  params :: json

datatype endpoint =
    GetApps
  | GetApp
  | ListConnections
  | InitiateConnection
  | GetConnection
  | DeleteConnection
  | GetConnectionInfo
  | CreateIntegration

text \<open>
  The world records what the SDK did: the telemetry events handed to the logger, the
  requests handed to the generated client (endpoint and options object, in order), the
  delays handed to \<open>setTimeout\<close>, and the wall clock \<open>Date.now()\<close> in milliseconds.
\<close>

record world =
  telemetry :: "telemetry_event list"
  requests :: "(endpoint \<times> json) list"
  timers :: "nat list"
  clock :: int

text \<open>
  The environment holds everything the two source files import but do not define: the
  zod schemas (as the predicate "parse succeeds"), the backend behind the generated
  client, and the timing of the run. A backend answer may depend on the options object
  and on the number of requests made before it, so that repeated polls can be answered
  differently. \<open>Inl m\<close> is a rejected promise, \<open>Inr d\<close> the \<open>data\<close> of the resolved one.
\<close>

record env =
  ZGetRequiredParams :: "json \<Rightarrow> bool"
  ZGetRequiredParamsForAuthScheme :: "json \<Rightarrow> bool"
  ZSingleConnectionParams :: "json \<Rightarrow> bool"
  ZSaveUserAccessDataParam :: "json \<Rightarrow> bool"
  getApps :: "nat \<Rightarrow> json \<Rightarrow> string + app list option option"
  getApp :: "nat \<Rightarrow> json \<Rightarrow> string + app option"
  listConnections :: "nat \<Rightarrow> json \<Rightarrow> string + json"
  initiateConnection :: "nat \<Rightarrow> json \<Rightarrow> string + json"
  getConnection :: "nat \<Rightarrow> json \<Rightarrow> string + json"
  deleteConnection :: "nat \<Rightarrow> json \<Rightarrow> string + json"
  getConnectionInfo :: "nat \<Rightarrow> json \<Rightarrow> string + json"
  createIntegration :: "nat \<Rightarrow> json \<Rightarrow> string + json"
  latency :: "nat \<Rightarrow> nat"
  slept :: "nat \<Rightarrow> nat"
  toISOString :: "int \<Rightarrow> string"

text \<open>
  Modelled from the spec: \<open>TELEMETRY_LOGGER.manualTelemetry\<close> (\<open>../utils/telemetry\<close>) is
  missing from the sources. The spec describes one fire-and-forget event carrying the
  method name, the originating module identifier and the call parameters, which never
  affects the outcome of the call: the event is appended to the log.
\<close>

definition manualTelemetry ::
  "telemetry_events \<Rightarrow> string \<Rightarrow> string \<Rightarrow> json \<Rightarrow> world \<Rightarrow> world" where
  "manualTelemetry ev m f p w =
     w\<lparr>telemetry := telemetry w @
          [\<lparr>event = ev, method_name = m, file_name = f, params = p\<rparr>]\<rparr>"

definition request :: "env \<Rightarrow> endpoint \<Rightarrow> json \<Rightarrow> world \<Rightarrow> world" where
  \<comment> \<open>a call of the generated client: logged, and the clock moves by its latency\<close>
  "request env ep options w =
     w\<lparr>requests := requests w @ [(ep, options)],
       clock := clock w + int (latency env (length (requests w)))\<rparr>"

text \<open>
  A sleep hands its delay to \<open>setTimeout\<close>. What \<open>Date.now()\<close> shows afterwards is up to
  the environment: \<open>slept env n\<close> is the number of milliseconds the clock has moved over
  the sleep that follows request \<open>n\<close>, and it may be less than the delay (the timer and
  the wall clock are different clocks). Only a clock that moves forward is modelled, by
  at least one millisecond over a sleep; with a clock that stands still or is set back
  the loop of \<open>waitUntilActive\<close> need not end.
\<close>

definition sleep :: "env \<Rightarrow> nat \<Rightarrow> world \<Rightarrow> world" where
  \<comment> \<open>\<open>await new Promise((resolve) => setTimeout(resolve, ms))\<close>\<close>
  "sleep env ms w =
     w\<lparr>timers := timers w @ [ms],
       clock := clock w + int (max 1 (slept env (length (requests w))))\<rparr>"

definition catch_handleAllError :: "(error + 'a) \<times> world \<Rightarrow> (error + 'a) \<times> world" where
  \<comment> \<open>\<open>try { ... } catch (error) { throw CEG.handleAllError(error); }\<close>\<close>
  "catch_handleAllError r =
     (case r of
        (Inl e, w) \<Rightarrow> (Inl (CEG_handleAllError e), w)
      | (Inr v, w) \<Rightarrow> (Inr v, w))"

section \<open>Apps\<close>

definition Apps_fileName :: string where
  "Apps_fileName = ''js/src/sdk/models/apps.ts''"

definition Apps_list :: "env \<Rightarrow> world \<Rightarrow> (error + app list) \<times> world" where
  "Apps_list env w =
     (let w1 = manualTelemetry SDK_METHOD_INVOKED ''list'' Apps_fileName (JObj []) w in
      catch_handleAllError
        (let w2 = request env GetApps JUndefined w1 in
         case getApps env (length (requests w1)) JUndefined of
           Inl e \<Rightarrow> (Inl (ApiError e), w2)
         | Inr None \<Rightarrow> (Inr [], w2)
         | Inr (Some None) \<Rightarrow> (Inr [], w2)
         | Inr (Some (Some items)) \<Rightarrow> (Inr items, w2)))"

definition Apps_get :: "env \<Rightarrow> json \<Rightarrow> world \<Rightarrow> (error + app) \<times> world" where
  "Apps_get env data w =
     (let w1 = manualTelemetry SDK_METHOD_INVOKED ''get'' Apps_fileName
                 (JObj [(''data'', data)]) w in
      catch_handleAllError
        (if nullish data then (Inl (TypeError ''cannot read appKey''), w1)
         else
           let options = JObj [(''path'', JObj [(''appName'', read_prop data ''appKey'')])];
               w2 = request env GetApp options w1
           in case getApp env (length (requests w1)) options of
                Inl e \<Rightarrow> (Inl (ApiError e), w2)
              | Inr None \<Rightarrow> (Inl (Error ''App not found''), w2)
              | Inr (Some response) \<Rightarrow> (Inr response, w2)))"

text \<open>
  The body of \<open>scheme.fields.forEach\<close>: one field is pushed to one bucket of the entry
  \<open>authSchemesObject[name]\<close>.
\<close>

definition classify_field :: "RequiredParamsResponse \<Rightarrow> auth_field \<Rightarrow> RequiredParamsResponse" where
  "classify_field entry field =
     (let isExpectedForIntegrationSetup = (expected_from_customer field = False);
          isRequired = required field
      in if isExpectedForIntegrationSetup then
           (if isRequired
            then entry\<lparr>expected_from_user := expected_from_user entry @ [name field]\<rparr>
            else entry\<lparr>optional_fields := optional_fields entry @ [name field]\<rparr>)
         else entry\<lparr>required_fields := required_fields entry @ [name field]\<rparr>)"

text \<open>
  One iteration of \<open>for (const scheme of authSchemes)\<close>: the entry under the key
  \<open>scheme.mode\<close> is replaced by a fresh object of three empty buckets, and every push of
  the \<open>forEach\<close> reaches that object through \<open>authSchemesObject[name]\<close>: right after the
  assignment the read gives the fresh entry, as an own property or, for the key
  \<open>__proto__\<close>, as the prototype. Nothing else is assigned during the iteration, so the
  pushes fold over the fresh entry.
\<close>

definition scheme_entry :: "auth_scheme \<Rightarrow> RequiredParamsResponse" where
  "scheme_entry scheme =
     foldl classify_field
       \<lparr>required_fields = [], optional_fields = [], expected_from_user = []\<rparr>
       (scheme_fields scheme)"

definition add_scheme :: "plain_object \<Rightarrow> auth_scheme \<Rightarrow> plain_object" where
  "add_scheme authSchemesObject scheme =
     assign_property authSchemesObject (mode scheme) (scheme_entry scheme)"

definition build_authSchemesObject :: "auth_scheme list \<Rightarrow> plain_object" where
  "build_authSchemesObject schemes = foldl add_scheme empty_object schemes"

text \<open>
  \<open>Apps.get\<close> returns an app object or throws, so the test \<open>if (!appData)\<close> of
  \<open>getRequiredParams\<close> never fires. An app without \<open>auth_schemes\<close> makes the \<open>for ... of\<close>
  loop throw a \<open>TypeError\<close>. The fields of a scheme have the types of the cast in the
  source: \<open>name: string\<close>, \<open>required: boolean\<close>, \<open>expected_from_customer: boolean\<close>.
\<close>

definition getRequiredParams ::
  "env \<Rightarrow> string \<Rightarrow> world \<Rightarrow> (error + RequiredParamsFullResponse) \<times> world" where
  "getRequiredParams env appId' w =
     (let w1 = manualTelemetry SDK_METHOD_INVOKED ''getRequiredParams'' Apps_fileName
                 (JObj [(''appId'', JStr appId')]) w in
      catch_handleAllError
        (if \<not> ZGetRequiredParams env (JObj [(''appId'', JStr appId')])
         then (Inl (ZodError ''ZGetRequiredParams''), w1)
         else
           case Apps_get env (JObj [(''appKey'', JStr appId')]) w1 of
             (Inl e, w2) \<Rightarrow> (Inl e, w2)
           | (Inr appData, w2) \<Rightarrow>
               (case auth_schemes appData of
                  None \<Rightarrow> (Inl (TypeError ''authSchemes is not iterable''), w2)
                | Some schemes \<Rightarrow>
                    (Inr \<lparr>availableAuthSchemes = map mode schemes,
                          authSchemes = build_authSchemesObject schemes\<rparr>, w2))))"

definition getRequiredParamsForAuthScheme ::
  "env \<Rightarrow> string \<Rightarrow> string \<Rightarrow> world \<Rightarrow> (error + property_value) \<times> world" where
  "getRequiredParamsForAuthScheme env appId' authScheme w =
     (let w1 = manualTelemetry SDK_METHOD_INVOKED ''getRequiredParamsForAuthScheme'' Apps_fileName
                 (JObj [(''appId'', JStr appId'), (''authScheme'', JStr authScheme)]) w in
      catch_handleAllError
        (if \<not> ZGetRequiredParamsForAuthScheme env
                 (JObj [(''appId'', JStr appId'), (''authScheme'', JStr authScheme)])
         then (Inl (ZodError ''ZGetRequiredParamsForAuthScheme''), w1)
         else
           case getRequiredParams env appId' w1 of
             (Inl e, w2) \<Rightarrow> (Inl e, w2)
           | (Inr params', w2) \<Rightarrow> (Inr (read_property (authSchemes params') authScheme), w2)))"

section \<open>Integrations\<close>

text \<open>
  Modelled from the spec: \<open>Integrations.create\<close> (\<open>./integrations\<close>) is missing from the
  sources. The spec calls it an external collaborator that creates an integration record
  through the integration creation endpoint, given the body it is called with; like every
  public method it emits one telemetry event and normalises its errors.
\<close>

definition Integrations_fileName :: string where
  "Integrations_fileName = ''js/src/sdk/models/integrations.ts''"

definition Integrations_create :: "env \<Rightarrow> json \<Rightarrow> world \<Rightarrow> (error + json) \<times> world" where
  "Integrations_create env data w =
     (let w1 = manualTelemetry SDK_METHOD_INVOKED ''create'' Integrations_fileName
                 (JObj [(''data'', data)]) w in
      catch_handleAllError
        (let options = JObj [(''body'', data)];
             w2 = request env CreateIntegration options w1
         in case createIntegration env (length (requests w1)) options of
              Inl e \<Rightarrow> (Inl (ApiError e), w2)
            | Inr integration \<Rightarrow> (Inr integration, w2)))"

section \<open>ConnectionRequest\<close>

definition new_ConnectionRequest :: "json \<Rightarrow> json \<Rightarrow> json \<Rightarrow> ConnectionRequest" where
  \<comment> \<open>the constructor: the argument \<open>redirectUri\<close> becomes the field \<open>redirectUrl\<close>\<close>
  "new_ConnectionRequest connectionStatus' connectedAccountId' redirectUri =
     \<lparr>connectionStatus = connectionStatus',
      connectedAccountId = connectedAccountId',
      redirectUrl = redirectUri\<rparr>"

definition optional_read :: "json \<Rightarrow> string \<Rightarrow> json" where
  \<comment> \<open>\<open>v?.k\<close>\<close>
  "optional_read v k = (if nullish v then JUndefined else read_prop v k)"

definition connection_path :: "ConnectionRequest \<Rightarrow> json" where
  \<comment> \<open>the options \<open>{ path: { connectedAccountId: this.connectedAccountId } }\<close>\<close>
  "connection_path cr = JObj [(''path'', JObj [(''connectedAccountId'', connectedAccountId cr)])]"

text \<open>
  \<open>saveUserAccessData\<close> returns what the generated client resolves with, the whole
  response object and not its \<open>data\<close>; of that object the model knows the \<open>data\<close>.
\<close>

datatype client_response = Response json

definition saveUserAccessData ::
  "env \<Rightarrow> ConnectionRequest \<Rightarrow> json \<Rightarrow> world \<Rightarrow> (error + client_response) \<times> world" where
  "saveUserAccessData env cr data w =
     catch_handleAllError
       (if \<not> ZSaveUserAccessDataParam env data
        then (Inl (ZodError ''ZSaveUserAccessDataParam''), w)
        else
          let options = connection_path cr;
              w1 = request env GetConnection options w
          in case getConnection env (length (requests w)) options of
               Inl e \<Rightarrow> (Inl (ApiError e), w1)
             | Inr connectedAccount \<Rightarrow>
                 if \<not> truthy connectedAccount
                 then (Inl (Error ''Connected account not found''), w1)
                 else if nullish data then (Inl (TypeError ''cannot read fieldInputs''), w1)
                 else
                   (let options2 = JObj [(''body'', JObj
                          [(''integrationId'', read_prop connectedAccount ''integrationId''),
                           (''data'', read_prop data ''fieldInputs''),
                           (''redirectUri'', read_prop data ''redirectUrl''),
                           (''userUuid'', read_prop data ''entityId''),
                           (''entityId'', read_prop data ''entityId'')])];
                        w2 = request env InitiateConnection options2 w1
                    in (case initiateConnection env (length (requests w1)) options2 of
                          Inl e \<Rightarrow> (Inl (ApiError e), w2)
                        | Inr res \<Rightarrow> (Inr (Response res), w2))))"

definition getAuthInfo ::
  "env \<Rightarrow> ConnectionRequest \<Rightarrow> json \<Rightarrow> world \<Rightarrow> (error + json) \<times> world" where
  "getAuthInfo env cr data w =
     catch_handleAllError
       (if \<not> ZSingleConnectionParams env data
        then (Inl (ZodError ''ZSingleConnectionParams''), w)
        else
          let options = JObj [(''path'', data)];
              w1 = request env GetConnectionInfo options w
          in case getConnectionInfo env (length (requests w)) options of
               Inl e \<Rightarrow> (Inl (ApiError e), w1)
             | Inr res_data \<Rightarrow> (Inr res_data, w1))"

text \<open>
  The \<open>while\<close> loop of \<open>waitUntilActive\<close>. Every round that does not leave the loop ends
  with a sleep, over which the clock moves forward, so the elapsed time reaches the
  deadline.
\<close>

function waitUntilActive_loop ::
  "env \<Rightarrow> ConnectionRequest \<Rightarrow> int \<Rightarrow> int \<Rightarrow> world \<Rightarrow> (error + json) \<times> world" where
  "waitUntilActive_loop env cr startTime timeout w =
     (if clock w - startTime < timeout * 1000 then
        (let options = connection_path cr;
             w1 = request env GetConnection options w
         in case getConnection env (length (requests w)) options of
              Inl e \<Rightarrow> (Inl (ApiError e), w1)
            | Inr connection \<Rightarrow>
                if \<not> truthy connection
                then (Inl (Error ''Connected account not found''), w1)
                else if read_prop connection ''status'' = JStr ''ACTIVE''
                then (Inr connection, w1)
                else waitUntilActive_loop env cr startTime timeout (sleep env 1000 w1))
      else (Inl (Error ''Connection did not become active within the timeout period.''), w))"
  by pat_completeness auto
termination
  by (relation "measure (\<lambda>(env, cr, startTime, timeout, w).
                  nat (timeout * 1000 - (clock w - startTime)))")
     (auto simp: sleep_def request_def)

definition waitUntilActive ::
  "env \<Rightarrow> ConnectionRequest \<Rightarrow> int \<Rightarrow> world \<Rightarrow> (error + json) \<times> world" where
  "waitUntilActive env cr timeout w =
     catch_handleAllError
       (let startTime = clock w in waitUntilActive_loop env cr startTime timeout w)"

section \<open>ConnectedAccounts\<close>

definition ConnectedAccounts_fileName :: string where
  "ConnectedAccounts_fileName = ''js/src/sdk/models/connectedAccounts.ts''"

definition ConnectedAccounts_list :: "env \<Rightarrow> json \<Rightarrow> world \<Rightarrow> (error + json) \<times> world" where
  "ConnectedAccounts_list env data w =
     (let w1 = manualTelemetry SDK_METHOD_INVOKED ''list'' ConnectedAccounts_fileName
                 (JObj [(''data'', data)]) w in
      catch_handleAllError
        (let options = JObj [(''query'', data)];
             w2 = request env ListConnections options w1
         in case listConnections env (length (requests w1)) options of
              Inl e \<Rightarrow> (Inl (ApiError e), w2)
            | Inr res_data \<Rightarrow> (Inr res_data, w2)))"

definition ConnectedAccounts_create ::
  "env \<Rightarrow> json \<Rightarrow> world \<Rightarrow> (error + ConnectionRequest) \<times> world" where
  "ConnectedAccounts_create env data w =
     (let w1 = manualTelemetry SDK_METHOD_INVOKED ''create'' ConnectedAccounts_fileName
                 (JObj [(''data'', data)]) w in
      catch_handleAllError
        (let options = JObj [(''body'', data), (''throwOnError'', JBool True)];
             w2 = request env InitiateConnection options w1
         in case initiateConnection env (length (requests w1)) options of
              Inl e \<Rightarrow> (Inl (ApiError e), w2)
            | Inr res \<Rightarrow>
                if nullish res then (Inl (TypeError ''cannot read connectionStatus''), w2)
                else (Inr (new_ConnectionRequest
                             (read_prop res ''connectionStatus'')
                             (read_prop res ''connectedAccountId'')
                             (nullish_coalesce (read_prop res ''redirectUrl'') JNull)), w2)))"

definition ConnectedAccounts_get :: "env \<Rightarrow> json \<Rightarrow> world \<Rightarrow> (error + json) \<times> world" where
  "ConnectedAccounts_get env data w =
     (let w1 = manualTelemetry SDK_METHOD_INVOKED ''get'' ConnectedAccounts_fileName
                 (JObj [(''data'', data)]) w in
      catch_handleAllError
        (if \<not> ZSingleConnectionParams env data
         then (Inl (ZodError ''ZSingleConnectionParams''), w1)
         else
           let options = JObj [(''path'', data), (''throwOnError'', JBool True)];
               w2 = request env GetConnection options w1
           in case getConnection env (length (requests w1)) options of
                Inl e \<Rightarrow> (Inl (ApiError e), w2)
              | Inr res_data \<Rightarrow> (Inr res_data, w2)))"

definition ConnectedAccounts_delete :: "env \<Rightarrow> json \<Rightarrow> world \<Rightarrow> (error + json) \<times> world" where
  "ConnectedAccounts_delete env data w =
     (let w1 = manualTelemetry SDK_METHOD_INVOKED ''delete'' ConnectedAccounts_fileName
                 (JObj [(''data'', data)]) w in
      catch_handleAllError
        (if \<not> ZSingleConnectionParams env data
         then (Inl (ZodError ''ZSingleConnectionParams''), w1)
         else
           let options = JObj [(''path'', data), (''throwOnError'', JBool True)];
               w2 = request env DeleteConnection options w1
           in case deleteConnection env (length (requests w1)) options of
                Inl e \<Rightarrow> (Inl (ApiError e), w2)
              | Inr res_data \<Rightarrow> (Inr res_data, w2)))"

text \<open>
  Lines 146 to 175 of \<open>initiate\<close>: the integration id the connection is initiated with.
  The timestamp is \<open>new Date().toISOString().replace(/[-:.]/g, "")\<close>.
\<close>

definition resolve_integrationId :: "env \<Rightarrow> json \<Rightarrow> world \<Rightarrow> (error + json) \<times> world" where
  "resolve_integrationId env payload w =
     (let authMode = read_prop payload ''authMode'';
          authConfig = read_prop payload ''authConfig'';
          appName = read_prop payload ''appName'';
          integrationId = read_prop payload ''integrationId''
      in if \<not> truthy integrationId \<and> truthy authMode then
           (let timestamp = filter (\<lambda>c. c \<notin> set ''-:.'') (toISOString env (clock w)) in
            if \<not> truthy appName
            then (Inl (Error ''appName is required when integrationId is not provided''), w)
            else if \<not> truthy authMode
            then (Inl (Error ''authMode is required when integrationId is not provided''), w)
            else if \<not> truthy authConfig
            then (Inl (Error ''authConfig is required when integrationId is not provided''), w)
            else
              case Apps_get env (JObj [(''appKey'', appName)]) w of
                (Inl e, w1) \<Rightarrow> (Inl e, w1)
              | (Inr app, w1) \<Rightarrow>
                  (case Integrations_create env
                          (JObj [(''appId'', appId app),
                                 (''name'', JStr (''integration_'' @ timestamp)),
                                 (''authScheme'', authMode),
                                 (''authConfig'', authConfig),
                                 (''useComposioAuth'', JBool False)]) w1 of
                     (Inl e, w2) \<Rightarrow> (Inl e, w2)
                   | (Inr integration, w2) \<Rightarrow> (Inr (optional_read integration ''id''), w2)))
         else (Inr integrationId, w))"

definition ConnectedAccounts_initiate ::
  "env \<Rightarrow> json \<Rightarrow> world \<Rightarrow> (error + ConnectionRequest) \<times> world" where
  "ConnectedAccounts_initiate env payload w =
     (let w1 = manualTelemetry SDK_METHOD_INVOKED ''initiate'' ConnectedAccounts_fileName
                 (JObj [(''payload'', payload)]) w in
      catch_handleAllError
        (if nullish payload then (Inl (TypeError ''cannot destructure payload''), w1)
         else
           let entityId = default_to (read_prop payload ''entityId'') (JStr ''default'');
               labels = read_prop payload ''labels'';
               data = default_to (read_prop payload ''data'') (JObj []);
               redirectUri = read_prop payload ''redirectUri''
           in case resolve_integrationId env payload w1 of
                (Inl e, w2) \<Rightarrow> (Inl e, w2)
              | (Inr integrationId, w2) \<Rightarrow>
                  (let options = JObj [(''body'', JObj
                         [(''integrationId'', integrationId),
                          (''entityId'', entityId),
                          (''labels'', labels),
                          (''redirectUri'', redirectUri),
                          (''data'', data)])];
                       w3 = request env InitiateConnection options w2
                   in case initiateConnection env (length (requests w2)) options of
                        Inl e \<Rightarrow> (Inl (ApiError e), w3)
                      | Inr res \<Rightarrow>
                          (Inr (new_ConnectionRequest
                                  (optional_read res ''connectionStatus'')
                                  (optional_read res ''connectedAccountId'')
                                  (optional_read res ''redirectUrl'')), w3))))"

section \<open>Example runs\<close>

definition world0 :: world where
  "world0 = \<lparr>telemetry = [], requests = [], timers = [], clock = 0\<rparr>"

definition env0 :: env where
  "env0 =
     \<lparr>ZGetRequiredParams = (\<lambda>v. True),
      ZGetRequiredParamsForAuthScheme = (\<lambda>v. True),
      ZSingleConnectionParams = (\<lambda>v. True),
      ZSaveUserAccessDataParam = (\<lambda>v. True),
      getApps = (\<lambda>n options. Inr None),
      getApp = (\<lambda>n options. Inr None),
      listConnections = (\<lambda>n options. Inr JUndefined),
      initiateConnection = (\<lambda>n options. Inr JUndefined),
      getConnection = (\<lambda>n options. Inr JUndefined),
      deleteConnection = (\<lambda>n options. Inr JUndefined),
      getConnectionInfo = (\<lambda>n options. Inr JUndefined),
      createIntegration = (\<lambda>n options. Inr JUndefined),
      latency = (\<lambda>n. 0),
      slept = (\<lambda>n. 1000),
      toISOString = (\<lambda>t. ''2024-05-06T07:08:09.123Z'')\<rparr>"

definition oauth2_scheme :: auth_scheme where
  "oauth2_scheme =
     \<lparr>mode = ''OAUTH2'',
      scheme_fields =
        [\<lparr>name = ''client_id'', required = True, expected_from_customer = False\<rparr>,
         \<lparr>name = ''scopes'', required = False, expected_from_customer = False\<rparr>,
         \<lparr>name = ''subdomain'', required = True, expected_from_customer = True\<rparr>]\<rparr>"

definition github_app :: app where
  "github_app = \<lparr>appId = JStr ''app-1'', auth_schemes = Some [oauth2_scheme]\<rparr>"

definition env_github :: env where
  "env_github = env0\<lparr>getApp := (\<lambda>n options. Inr (Some github_app))\<rparr>"

definition twice_scheme :: auth_scheme where
  "twice_scheme =
     \<lparr>mode = ''API_KEY'',
      scheme_fields =
        [\<lparr>name = ''token'', required = True, expected_from_customer = False\<rparr>,
         \<lparr>name = ''token'', required = False, expected_from_customer = True\<rparr>]\<rparr>"

definition env_twice :: env where
  "env_twice =
     env0\<lparr>getApp := (\<lambda>n options.
             Inr (Some \<lparr>appId = JStr ''app-2'', auth_schemes = Some [twice_scheme]\<rparr>))\<rparr>"

definition request0 :: ConnectionRequest where
  "request0 = \<lparr>connectionStatus = JStr ''INITIATED'', connectedAccountId = JStr ''ca-1'',
               redirectUrl = JNull\<rparr>"

definition env_active :: env where
  "env_active =
     env0\<lparr>getConnection := (\<lambda>n options.
             Inr (JObj [(''id'', JStr ''ca-1''), (''status'', JStr ''ACTIVE'')])),
          latency := (\<lambda>n. 120)\<rparr>"

definition env_pending :: env where
  "env_pending =
     env0\<lparr>getConnection := (\<lambda>n options.
             Inr (JObj [(''id'', JStr ''ca-1''), (''status'', JStr ''INITIATED'')])),
          latency := (\<lambda>n. 120)\<rparr>"

definition env_becomes_active :: env where
  "env_becomes_active =
     env0\<lparr>getConnection := (\<lambda>n options.
             Inr (JObj [(''id'', JStr ''ca-1''),
                        (''status'', JStr (if n < 2 then ''INITIATED'' else ''ACTIVE''))])),
          latency := (\<lambda>n. 120)\<rparr>"


definition env_strict :: env where
  "env_strict =
     env0\<lparr>ZGetRequiredParams := (\<lambda>v. False),
          ZGetRequiredParamsForAuthScheme := (\<lambda>v. False),
          ZSingleConnectionParams := (\<lambda>v. False),
          ZSaveUserAccessDataParam := (\<lambda>v. False)\<rparr>"

definition same_mode_app :: app where
  "same_mode_app =
     \<lparr>appId = JStr ''app-3'',
      auth_schemes = Some
        [\<lparr>mode = ''OAUTH2'',
          scheme_fields =
            [\<lparr>name = ''client_id'', required = True, expected_from_customer = False\<rparr>]\<rparr>,
         \<lparr>mode = ''OAUTH2'',
          scheme_fields =
            [\<lparr>name = ''api_key'', required = True, expected_from_customer = True\<rparr>]\<rparr>]\<rparr>"

definition env_same_mode :: env where
  "env_same_mode = env0\<lparr>getApp := (\<lambda>n options. Inr (Some same_mode_app))\<rparr>"

definition repeat_scheme :: auth_scheme where
  "repeat_scheme =
     \<lparr>mode = ''BASIC'',
      scheme_fields =
        [\<lparr>name = ''username'', required = True, expected_from_customer = False\<rparr>,
         \<lparr>name = ''username'', required = True, expected_from_customer = False\<rparr>,
         \<lparr>name = ''password'', required = True, expected_from_customer = True\<rparr>]\<rparr>"

definition repeat_app :: app where
  "repeat_app = \<lparr>appId = JStr ''app-4'', auth_schemes = Some [repeat_scheme]\<rparr>"

definition env_repeat :: env where
  "env_repeat = env0\<lparr>getApp := (\<lambda>n options. Inr (Some repeat_app))\<rparr>"

definition env_early :: env where
  "env_early = env_pending\<lparr>slept := (\<lambda>n. 999), latency := (\<lambda>n. 0)\<rparr>"

definition proto_app :: app where
  "proto_app =
     \<lparr>appId = JStr ''app-5'',
      auth_schemes = Some
        [\<lparr>mode = ''__proto__'',
          scheme_fields =
            [\<lparr>name = ''token'', required = True, expected_from_customer = True\<rparr>]\<rparr>]\<rparr>"

definition env_proto :: env where
  "env_proto = env0\<lparr>getApp := (\<lambda>n options. Inr (Some proto_app))\<rparr>"

section \<open>Properties of the field classification\<close>

lemma foldl_classify_field:
  "foldl classify_field entry fs =
     \<lparr>required_fields = required_fields entry @ map name (filter expected_from_customer fs),
      optional_fields = optional_fields entry @
         map name (filter (\<lambda>f. \<not> expected_from_customer f \<and> \<not> required f) fs),
      expected_from_user = expected_from_user entry @
         map name (filter (\<lambda>f. \<not> expected_from_customer f \<and> required f) fs)\<rparr>"
  by (induction fs arbitrary: entry) (simp_all add: classify_field_def)

lemma scheme_entry_eq:
  "scheme_entry s =
     \<lparr>required_fields =
        map name (filter (\<lambda>f. expected_from_customer f = True) (scheme_fields s)),
      optional_fields =
        map name (filter (\<lambda>f. expected_from_customer f = False \<and> required f = False)
                   (scheme_fields s)),
      expected_from_user =
        map name (filter (\<lambda>f. expected_from_customer f = False \<and> required f = True)
                   (scheme_fields s))\<rparr>"
  by (simp add: scheme_entry_def foldl_classify_field)

subsection \<open>What the returned object holds under a key\<close>

lemma own_properties_foldl_add_scheme:
  "own_properties (foldl add_scheme obj ss) k =
     (if k \<noteq> ''__proto__'' \<and> k \<in> mode ` set ss
      then Some (scheme_entry (last (filter (\<lambda>s. mode s = k) ss)))
      else own_properties obj k)"
proof (induction ss rule: rev_induct)
  case Nil
  then show ?case by simp
next
  case (snoc x xs)
  then show ?case
    by (auto simp: add_scheme_def assign_property_def)
qed

lemma prototype_entry_foldl_add_scheme:
  "prototype_entry (foldl add_scheme obj ss) =
     (if ''__proto__'' \<in> mode ` set ss
      then Some (scheme_entry (last (filter (\<lambda>s. mode s = ''__proto__'') ss)))
      else prototype_entry obj)"
proof (induction ss rule: rev_induct)
  case Nil
  then show ?case by simp
next
  case (snoc x xs)
  then show ?case
    by (auto simp: add_scheme_def assign_property_def)
qed

lemma read_property_mode:
  assumes "k \<in> mode ` set ss"
  shows "read_property (build_authSchemesObject ss) k =
           Entry (scheme_entry (last (filter (\<lambda>s. mode s = k) ss)))"
proof (cases "k = ''__proto__''")
  case True
  with assms show ?thesis
    by (simp add: read_property_def build_authSchemesObject_def
          own_properties_foldl_add_scheme prototype_entry_foldl_add_scheme empty_object_def)
next
  case False
  with assms show ?thesis
    by (simp add: read_property_def build_authSchemesObject_def
          own_properties_foldl_add_scheme empty_object_def)
qed

lemma read_property_other:
  assumes "k \<notin> mode ` set ss"
  shows "(read_property (build_authSchemesObject ss) k = Undefined) =
           (k \<notin> set Object_prototype_names \<and>
            (''__proto__'' \<in> mode ` set ss \<longrightarrow>
               k \<notin> {''required_fields'', ''optional_fields'', ''expected_from_user''}))"
  using assms
  by (auto simp: read_property_def build_authSchemesObject_def
        own_properties_foldl_add_scheme prototype_entry_foldl_add_scheme empty_object_def
        Object_prototype_names_def)

lemma last_filter_mode:
  "last (filter (\<lambda>s. mode s = mode scheme) (pre @ scheme # post)) =
     last (filter (\<lambda>s. mode s = mode scheme) (scheme # post))"
  by simp

lemma last_filter_mode_self:
  "mode scheme \<notin> mode ` set post \<Longrightarrow>
   last (filter (\<lambda>s. mode s = mode scheme) (scheme # post)) = scheme"
proof -
  assume "mode scheme \<notin> mode ` set post"
  then have "filter (\<lambda>s. mode s = mode scheme) post = []"
    by (force simp: filter_empty_conv image_iff)
  then show ?thesis by simp
qed

lemma getRequiredParams_returns:
  assumes "ZGetRequiredParams env (JObj [(''appId'', JStr a)])"
      and "getApp env (length (requests w)) (JObj [(''path'', JObj [(''appName'', JStr a)])]) = Inr (Some appData)"
      and "auth_schemes appData = Some schemes"
  shows "fst (getRequiredParams env a w) =
           Inr \<lparr>availableAuthSchemes = map mode schemes,
                authSchemes = build_authSchemesObject schemes\<rparr>"
  using assms
  by (simp add: getRequiredParams_def Apps_get_def Let_def catch_handleAllError_def
        manualTelemetry_def nullish_def)

lemma getRequiredParams_Inr:
  assumes "fst (getRequiredParams env a w) = Inr res"
  shows "\<exists>schemes. res = \<lparr>availableAuthSchemes = map mode schemes,
                            authSchemes = build_authSchemesObject schemes\<rparr>"
  using assms
  by (auto simp: getRequiredParams_def Let_def catch_handleAllError_def
           split: if_splits sum.splits option.splits prod.splits)

lemma read_returned_entry:
  "read_property (build_authSchemesObject (pre @ scheme # post)) (mode scheme) =
     Entry (scheme_entry (last (filter (\<lambda>s. mode s = mode scheme) (scheme # post))))"
  using read_property_mode [of "mode scheme" "pre @ scheme # post"]
  by (simp only: last_filter_mode) simp
lemma bucket_membership:
  "n \<in> set (required_fields (scheme_entry s)) =
     (\<exists>g \<in> set (scheme_fields s). name g = n \<and> expected_from_customer g)"
  "n \<in> set (optional_fields (scheme_entry s)) =
     (\<exists>g \<in> set (scheme_fields s). name g = n \<and> \<not> expected_from_customer g \<and> \<not> required g)"
  "n \<in> set (expected_from_user (scheme_entry s)) =
     (\<exists>g \<in> set (scheme_fields s). name g = n \<and> \<not> expected_from_customer g \<and> required g)"
  by (auto simp: scheme_entry_eq)

subsection \<open>Classification of the fields\<close>

text \<open>
  C2, as amended. For every app and every auth scheme of that app, the entry that
  \<open>getRequiredParams\<close> returns under \<open>scheme.mode\<close> is the classification of the fields of
  the last scheme of the app with that mode: its \<open>required_fields\<close> are exactly the names
  of the fields with \<open>expected_from_customer == true\<close>, its \<open>optional_fields\<close> exactly those
  with \<open>expected_from_customer == false\<close> and \<open>required == false\<close>, its
  \<open>expected_from_user\<close> exactly those with \<open>expected_from_customer == false\<close> and
  \<open>required == true\<close>, each in the order of the fields. So a field of a scheme is found
  in the bucket the rule gives if and only if that last scheme has a field of the same
  name and the same case of the rule. For a scheme that no later scheme of the app shares
  its mode with, that last scheme is the scheme itself, and each of its fields is placed
  as the rule says.

  The scheme is any element of the fetched list (\<open>pre @ scheme # post\<close>), and \<open>final\<close> the
  last scheme with its mode.
\<close>

theorem getRequiredParams_classifies_fields:
  assumes "ZGetRequiredParams env (JObj [(''appId'', JStr a)])"
      and "getApp env (length (requests w)) (JObj [(''path'', JObj [(''appName'', JStr a)])])
             = Inr (Some appData)"
      and "auth_schemes appData = Some (pre @ scheme # post)"
  shows "fst (getRequiredParams env a w) =
           Inr \<lparr>availableAuthSchemes = map mode (pre @ scheme # post),
                authSchemes = build_authSchemesObject (pre @ scheme # post)\<rparr> \<and>
         (let final = last (filter (\<lambda>s. mode s = mode scheme) (scheme # post)) in
          read_property (build_authSchemesObject (pre @ scheme # post)) (mode scheme) =
            Entry
              \<lparr>required_fields =
                 map name (filter (\<lambda>f. expected_from_customer f = True) (scheme_fields final)),
               optional_fields =
                 map name (filter (\<lambda>f. expected_from_customer f = False \<and> required f = False)
                            (scheme_fields final)),
               expected_from_user =
                 map name (filter (\<lambda>f. expected_from_customer f = False \<and> required f = True)
                            (scheme_fields final))\<rparr> \<and>
          (\<forall>field \<in> set (scheme_fields scheme). \<forall>entry.
             read_property (build_authSchemesObject (pre @ scheme # post)) (mode scheme)
               = Entry entry \<longrightarrow>
             (expected_from_customer field = False \<and> required field = True \<longrightarrow>
                (name field \<in> set (expected_from_user entry)) =
                (\<exists>g \<in> set (scheme_fields final). name g = name field \<and>
                   expected_from_customer g = False \<and> required g = True)) \<and>
             (expected_from_customer field = False \<and> required field = False \<longrightarrow>
                (name field \<in> set (optional_fields entry)) =
                (\<exists>g \<in> set (scheme_fields final). name g = name field \<and>
                   expected_from_customer g = False \<and> required g = False)) \<and>
             (expected_from_customer field = True \<longrightarrow>
                (name field \<in> set (required_fields entry)) =
                (\<exists>g \<in> set (scheme_fields final). name g = name field \<and>
                   expected_from_customer g = True)))) \<and>
         (mode scheme \<notin> mode ` set post \<longrightarrow>
            last (filter (\<lambda>s. mode s = mode scheme) (scheme # post)) = scheme \<and>
            (\<exists>entry. read_property (build_authSchemesObject (pre @ scheme # post)) (mode scheme)
                        = Entry entry \<and>
               (\<forall>field \<in> set (scheme_fields scheme).
                  (expected_from_customer field = False \<and> required field = True \<longrightarrow>
                     name field \<in> set (expected_from_user entry)) \<and>
                  (expected_from_customer field = False \<and> required field = False \<longrightarrow>
                     name field \<in> set (optional_fields entry)) \<and>
                  (expected_from_customer field = True \<longrightarrow>
                     name field \<in> set (required_fields entry)))))"
proof -
  let ?final = "last (filter (\<lambda>s. mode s = mode scheme) (scheme # post))"
  let ?obj = "build_authSchemesObject (pre @ scheme # post)"
  have r: "fst (getRequiredParams env a w) =
           Inr \<lparr>availableAuthSchemes = map mode (pre @ scheme # post), authSchemes = ?obj\<rparr>"
    using assms by (rule getRequiredParams_returns)
  have e: "read_property ?obj (mode scheme) = Entry (scheme_entry ?final)"
    by (rule read_returned_entry)
  have f: "mode scheme \<notin> mode ` set post \<Longrightarrow> ?final = scheme"
    by (rule last_filter_mode_self)
  have x: "read_property ?obj (mode scheme) =
            Entry
              \<lparr>required_fields =
                 map name (filter (\<lambda>f. expected_from_customer f = True) (scheme_fields ?final)),
               optional_fields =
                 map name (filter (\<lambda>f. expected_from_customer f = False \<and> required f = False)
                            (scheme_fields ?final)),
               expected_from_user =
                 map name (filter (\<lambda>f. expected_from_customer f = False \<and> required f = True)
                            (scheme_fields ?final))\<rparr>"
    unfolding e by (subst scheme_entry_eq) (rule refl)
  have y: "\<forall>field \<in> set (scheme_fields scheme). \<forall>entry.
             read_property ?obj (mode scheme) = Entry entry \<longrightarrow>
             (expected_from_customer field = False \<and> required field = True \<longrightarrow>
                (name field \<in> set (expected_from_user entry)) =
                (\<exists>g \<in> set (scheme_fields ?final). name g = name field \<and>
                   expected_from_customer g = False \<and> required g = True)) \<and>
             (expected_from_customer field = False \<and> required field = False \<longrightarrow>
                (name field \<in> set (optional_fields entry)) =
                (\<exists>g \<in> set (scheme_fields ?final). name g = name field \<and>
                   expected_from_customer g = False \<and> required g = False)) \<and>
             (expected_from_customer field = True \<longrightarrow>
                (name field \<in> set (required_fields entry)) =
                (\<exists>g \<in> set (scheme_fields ?final). name g = name field \<and>
                   expected_from_customer g = True))"
    unfolding e by (simp add: bucket_membership)
  have m: "\<forall>field \<in> set (scheme_fields scheme).
                  (expected_from_customer field = False \<and> required field = True \<longrightarrow>
                     name field \<in> set (expected_from_user (scheme_entry scheme))) \<and>
                  (expected_from_customer field = False \<and> required field = False \<longrightarrow>
                     name field \<in> set (optional_fields (scheme_entry scheme))) \<and>
                  (expected_from_customer field = True \<longrightarrow>
                     name field \<in> set (required_fields (scheme_entry scheme)))"
    unfolding bucket_membership by blast
  have z: "mode scheme \<notin> mode ` set post \<longrightarrow>
            ?final = scheme \<and>
            (\<exists>entry. read_property ?obj (mode scheme) = Entry entry \<and>
               (\<forall>field \<in> set (scheme_fields scheme).
                  (expected_from_customer field = False \<and> required field = True \<longrightarrow>
                     name field \<in> set (expected_from_user entry)) \<and>
                  (expected_from_customer field = False \<and> required field = False \<longrightarrow>
                     name field \<in> set (optional_fields entry)) \<and>
                  (expected_from_customer field = True \<longrightarrow>
                     name field \<in> set (required_fields entry))))"
  proof
    assume l: "mode scheme \<notin> mode ` set post"
    have "read_property ?obj (mode scheme) = Entry (scheme_entry scheme)"
      using e f [OF l] by simp
    with m f [OF l] show "?final = scheme \<and>
            (\<exists>entry. read_property ?obj (mode scheme) = Entry entry \<and>
               (\<forall>field \<in> set (scheme_fields scheme).
                  (expected_from_customer field = False \<and> required field = True \<longrightarrow>
                     name field \<in> set (expected_from_user entry)) \<and>
                  (expected_from_customer field = False \<and> required field = False \<longrightarrow>
                     name field \<in> set (optional_fields entry)) \<and>
                  (expected_from_customer field = True \<longrightarrow>
                     name field \<in> set (required_fields entry))))"
      by blast
  qed
  from r x y z show ?thesis
    unfolding Let_def by (intro conjI)
qed

lemma env_github_simps:
  "ZGetRequiredParams env_github v"
  "ZGetRequiredParamsForAuthScheme env_github v"
  "getApp env_github n options = Inr (Some github_app)"
  by (simp_all add: env_github_def env0_def)

lemma scheme_entry_oauth2:
  "scheme_entry oauth2_scheme =
     \<lparr>required_fields = [''subdomain''], optional_fields = [''scopes''],
      expected_from_user = [''client_id'']\<rparr>"
  by (simp add: scheme_entry_def oauth2_scheme_def classify_field_def)

text \<open>
  The theorem at an app with one \<open>OAUTH2\<close> scheme whose three fields fall into the three
  buckets.
\<close>

theorem getRequiredParams_classifies_fields_witness:
  "ZGetRequiredParams env_github (JObj [(''appId'', JStr ''github'')]) \<and>
   getApp env_github (length (requests world0))
     (JObj [(''path'', JObj [(''appName'', JStr ''github'')])]) = Inr (Some github_app) \<and>
   auth_schemes github_app = Some ([] @ oauth2_scheme # []) \<and>
   mode oauth2_scheme \<notin> mode ` set [] \<and>
   fst (getRequiredParams env_github ''github'' world0) =
     Inr \<lparr>availableAuthSchemes = [''OAUTH2''],
          authSchemes = build_authSchemesObject [oauth2_scheme]\<rparr> \<and>
   read_property (build_authSchemesObject [oauth2_scheme]) ''OAUTH2'' =
     Entry \<lparr>required_fields = [''subdomain''], optional_fields = [''scopes''],
            expected_from_user = [''client_id'']\<rparr>"
proof -
  have v: "ZGetRequiredParams env_github (JObj [(''appId'', JStr ''github'')])"
    by (simp add: env_github_simps)
  have g: "getApp env_github (length (requests world0))
     (JObj [(''path'', JObj [(''appName'', JStr ''github'')])]) = Inr (Some github_app)"
    by (simp add: env_github_simps)
  have s: "auth_schemes github_app = Some ([] @ oauth2_scheme # [])"
    by (simp add: github_app_def)
  have m: "mode oauth2_scheme = ''OAUTH2''"
    by (simp add: oauth2_scheme_def)
  have f: "scheme_fields oauth2_scheme =
        [\<lparr>name = ''client_id'', required = True, expected_from_customer = False\<rparr>,
         \<lparr>name = ''scopes'', required = False, expected_from_customer = False\<rparr>,
         \<lparr>name = ''subdomain'', required = True, expected_from_customer = True\<rparr>]"
    by (simp add: oauth2_scheme_def)
  show ?thesis
    using v g s getRequiredParams_classifies_fields [OF v g s]
    by (simp add: m f)
qed

text \<open>
  C2 as stated fails for an app with two schemes of the same mode: the assignment
  \<open>authSchemesObject[name] = {...}\<close> of the second scheme replaces the entry of the first.
  The field \<open>client_id\<close> of the first scheme has \<open>expected_from_customer == false\<close> and
  \<open>required == true\<close>, and the returned \<open>expected_from_user\<close> is empty.
\<close>

theorem getRequiredParams_same_mode_replaces_entry:
  "getApp env_same_mode 0 (JObj [(''path'', JObj [(''appName'', JStr ''app'')])]) =
     Inr (Some
       \<lparr>appId = JStr ''app-3'',
        auth_schemes = Some
          [\<lparr>mode = ''OAUTH2'',
            scheme_fields =
              [\<lparr>name = ''client_id'', required = True, expected_from_customer = False\<rparr>]\<rparr>,
           \<lparr>mode = ''OAUTH2'',
            scheme_fields =
              [\<lparr>name = ''api_key'', required = True, expected_from_customer = True\<rparr>]\<rparr>]\<rparr>) \<and>
   fst (getRequiredParams env_same_mode ''app'' world0) =
     Inr \<lparr>availableAuthSchemes = [''OAUTH2'', ''OAUTH2''],
          authSchemes =
            \<lparr>own_properties =
               [''OAUTH2'' \<mapsto> \<lparr>required_fields = [''api_key''], optional_fields = [],
                                expected_from_user = []\<rparr>],
             prototype_entry = None\<rparr>\<rparr>"
  by (simp add: getRequiredParams_def Apps_get_def Let_def catch_handleAllError_def
        manualTelemetry_def nullish_def env_same_mode_def same_mode_app_def env0_def world0_def
        request_def build_authSchemesObject_def add_scheme_def scheme_entry_def
        classify_field_def assign_property_def empty_object_def)
subsection \<open>Exclusive buckets\<close>

lemma exactly_one_bucket:
  "((n \<in> set (required_fields (scheme_entry s)) \<and>
     n \<notin> set (optional_fields (scheme_entry s)) \<and>
     n \<notin> set (expected_from_user (scheme_entry s))) \<or>
    (n \<notin> set (required_fields (scheme_entry s)) \<and>
     n \<in> set (optional_fields (scheme_entry s)) \<and>
     n \<notin> set (expected_from_user (scheme_entry s))) \<or>
    (n \<notin> set (required_fields (scheme_entry s)) \<and>
     n \<notin> set (optional_fields (scheme_entry s)) \<and>
     n \<in> set (expected_from_user (scheme_entry s))))
   = ((\<exists>g \<in> set (scheme_fields s). name g = n) \<and>
      (\<forall>g \<in> set (scheme_fields s). \<forall>h \<in> set (scheme_fields s).
         name g = n \<and> name h = n \<longrightarrow>
           expected_from_customer g = expected_from_customer h \<and>
           (expected_from_customer g = False \<longrightarrow> required g = required h)))"
  unfolding bucket_membership by (rule iffI) (blast, metis)

text \<open>
  C5, as amended. For every auth scheme processed by \<open>getRequiredParams\<close> and every field
  of it, the name of the field appears in exactly one of the three buckets
  \<open>required_fields\<close>, \<open>optional_fields\<close>, \<open>expected_from_user\<close> of the summary returned
  under the mode of the scheme if and only if the last scheme of the app with that mode
  has a field of that name and all its fields of that name fall into the same bucket
  (they agree in \<open>expected_from_customer\<close> and, where that is false, in \<open>required\<close>). For
  a scheme that no later scheme shares its mode with, that last scheme is the scheme
  itself: its buckets are exclusive for a field name exactly when the fields of that name
  agree in this way.
\<close>

theorem getRequiredParams_buckets_exclusive:
  assumes "ZGetRequiredParams env (JObj [(''appId'', JStr a)])"
      and "getApp env (length (requests w)) (JObj [(''path'', JObj [(''appName'', JStr a)])])
             = Inr (Some appData)"
      and "auth_schemes appData = Some (pre @ scheme # post)"
      and "field \<in> set (scheme_fields scheme)"
  shows "fst (getRequiredParams env a w) =
           Inr \<lparr>availableAuthSchemes = map mode (pre @ scheme # post),
                authSchemes = build_authSchemesObject (pre @ scheme # post)\<rparr> \<and>
         (\<exists>entry. read_property (build_authSchemesObject (pre @ scheme # post)) (mode scheme)
                     = Entry entry \<and>
            (let final = last (filter (\<lambda>s. mode s = mode scheme) (scheme # post));
                 n = name field
             in ((n \<in> set (required_fields entry) \<and> n \<notin> set (optional_fields entry) \<and>
                  n \<notin> set (expected_from_user entry)) \<or>
                 (n \<notin> set (required_fields entry) \<and> n \<in> set (optional_fields entry) \<and>
                  n \<notin> set (expected_from_user entry)) \<or>
                 (n \<notin> set (required_fields entry) \<and> n \<notin> set (optional_fields entry) \<and>
                  n \<in> set (expected_from_user entry)))
                = ((\<exists>g \<in> set (scheme_fields final). name g = n) \<and>
                   (\<forall>g \<in> set (scheme_fields final). \<forall>h \<in> set (scheme_fields final).
                      name g = n \<and> name h = n \<longrightarrow>
                        expected_from_customer g = expected_from_customer h \<and>
                        (expected_from_customer g = False \<longrightarrow> required g = required h))))) \<and>
         (mode scheme \<notin> mode ` set post \<longrightarrow>
            last (filter (\<lambda>s. mode s = mode scheme) (scheme # post)) = scheme)"
proof -
  let ?final = "last (filter (\<lambda>s. mode s = mode scheme) (scheme # post))"
  have r: "fst (getRequiredParams env a w) =
           Inr \<lparr>availableAuthSchemes = map mode (pre @ scheme # post),
                authSchemes = build_authSchemesObject (pre @ scheme # post)\<rparr>"
    using assms(1-3) by (rule getRequiredParams_returns)
  have e: "read_property (build_authSchemesObject (pre @ scheme # post)) (mode scheme) =
             Entry (scheme_entry ?final)"
    by (rule read_returned_entry)
  have x: "let final = ?final; n = name field
             in ((n \<in> set (required_fields (scheme_entry ?final)) \<and>
                  n \<notin> set (optional_fields (scheme_entry ?final)) \<and>
                  n \<notin> set (expected_from_user (scheme_entry ?final))) \<or>
                 (n \<notin> set (required_fields (scheme_entry ?final)) \<and>
                  n \<in> set (optional_fields (scheme_entry ?final)) \<and>
                  n \<notin> set (expected_from_user (scheme_entry ?final))) \<or>
                 (n \<notin> set (required_fields (scheme_entry ?final)) \<and>
                  n \<notin> set (optional_fields (scheme_entry ?final)) \<and>
                  n \<in> set (expected_from_user (scheme_entry ?final))))
                = ((\<exists>g \<in> set (scheme_fields final). name g = n) \<and>
                   (\<forall>g \<in> set (scheme_fields final). \<forall>h \<in> set (scheme_fields final).
                      name g = n \<and> name h = n \<longrightarrow>
                        expected_from_customer g = expected_from_customer h \<and>
                        (expected_from_customer g = False \<longrightarrow> required g = required h)))"
    unfolding Let_def by (rule exactly_one_bucket)
  have f: "mode scheme \<notin> mode ` set post \<longrightarrow> ?final = scheme"
    by (rule impI) (rule last_filter_mode_self)
  from e x have "\<exists>entry. read_property (build_authSchemesObject (pre @ scheme # post)) (mode scheme)
                     = Entry entry \<and>
            (let final = ?final; n = name field
             in ((n \<in> set (required_fields entry) \<and> n \<notin> set (optional_fields entry) \<and>
                  n \<notin> set (expected_from_user entry)) \<or>
                 (n \<notin> set (required_fields entry) \<and> n \<in> set (optional_fields entry) \<and>
                  n \<notin> set (expected_from_user entry)) \<or>
                 (n \<notin> set (required_fields entry) \<and> n \<notin> set (optional_fields entry) \<and>
                  n \<in> set (expected_from_user entry)))
                = ((\<exists>g \<in> set (scheme_fields final). name g = n) \<and>
                   (\<forall>g \<in> set (scheme_fields final). \<forall>h \<in> set (scheme_fields final).
                      name g = n \<and> name h = n \<longrightarrow>
                        expected_from_customer g = expected_from_customer h \<and>
                        (expected_from_customer g = False \<longrightarrow> required g = required h))))"
    by (intro exI [of _ "scheme_entry ?final"] conjI)
  with r f show ?thesis by blast
qed

text \<open>
  C5 as stated fails in two ways. Two fields of one scheme that share a name and differ
  in their flags put that name in two buckets (\<open>token\<close> below). And a field of a scheme
  whose entry a later scheme of the same mode replaces is in no bucket of the returned
  summary (\<open>client_id\<close> below).
\<close>

theorem getRequiredParams_buckets_not_exclusive:
  "fst (getRequiredParams env_twice ''app'' world0) =
     Inr \<lparr>availableAuthSchemes = [''API_KEY''],
          authSchemes =
            \<lparr>own_properties =
               [''API_KEY'' \<mapsto> \<lparr>required_fields = [''token''], optional_fields = [],
                                 expected_from_user = [''token'']\<rparr>],
             prototype_entry = None\<rparr>\<rparr> \<and>
   auth_schemes same_mode_app = Some
     [\<lparr>mode = ''OAUTH2'',
       scheme_fields =
         [\<lparr>name = ''client_id'', required = True, expected_from_customer = False\<rparr>]\<rparr>,
      \<lparr>mode = ''OAUTH2'',
       scheme_fields =
         [\<lparr>name = ''api_key'', required = True, expected_from_customer = True\<rparr>]\<rparr>] \<and>
   read_property
     (authSchemes (projr (fst (getRequiredParams env_same_mode ''app'' world0)))) ''OAUTH2'' =
     Entry \<lparr>required_fields = [''api_key''], optional_fields = [], expected_from_user = []\<rparr>"
  by (simp add: getRequiredParams_def Apps_get_def Let_def catch_handleAllError_def
        manualTelemetry_def nullish_def env_twice_def env_same_mode_def same_mode_app_def
        twice_scheme_def env0_def world0_def
        request_def build_authSchemesObject_def add_scheme_def scheme_entry_def
        classify_field_def assign_property_def empty_object_def read_property_def)

text \<open>
  The amended statement at a scheme with two fields named \<open>username\<close> of the same flags:
  the name is in \<open>expected_from_user\<close> only.
\<close>

theorem getRequiredParams_buckets_exclusive_witness:
  "ZGetRequiredParams env_repeat (JObj [(''appId'', JStr ''app'')]) \<and>
   getApp env_repeat (length (requests world0))
     (JObj [(''path'', JObj [(''appName'', JStr ''app'')])]) = Inr (Some repeat_app) \<and>
   auth_schemes repeat_app = Some ([] @ repeat_scheme # []) \<and>
   \<lparr>name = ''username'', required = True, expected_from_customer = False\<rparr>
     \<in> set (scheme_fields repeat_scheme) \<and>
   mode repeat_scheme \<notin> mode ` set [] \<and>
   read_property (build_authSchemesObject [repeat_scheme]) ''BASIC'' =
     Entry \<lparr>required_fields = [''password''], optional_fields = [],
            expected_from_user = [''username'', ''username'']\<rparr>"
proof -
  have v: "ZGetRequiredParams env_repeat (JObj [(''appId'', JStr ''app'')])"
    by (simp add: env_repeat_def env0_def)
  have g: "getApp env_repeat (length (requests world0))
     (JObj [(''path'', JObj [(''appName'', JStr ''app'')])]) = Inr (Some repeat_app)"
    by (simp add: env_repeat_def env0_def)
  have s: "auth_schemes repeat_app = Some ([] @ repeat_scheme # [])"
    by (simp add: repeat_app_def)
  have f: "\<lparr>name = ''username'', required = True, expected_from_customer = False\<rparr>
     \<in> set (scheme_fields repeat_scheme)"
    by (simp add: repeat_scheme_def)
  have e: "read_property (build_authSchemesObject [repeat_scheme]) ''BASIC'' =
     Entry \<lparr>required_fields = [''password''], optional_fields = [],
            expected_from_user = [''username'', ''username'']\<rparr>"
    by (simp add: build_authSchemesObject_def add_scheme_def scheme_entry_def
        classify_field_def assign_property_def empty_object_def read_property_def
        repeat_scheme_def)
  show ?thesis
    using v g s f e getRequiredParams_buckets_exclusive [OF v g s f]
    by simp
qed
subsection \<open>Indexing the summary by auth scheme\<close>

lemma getRequiredParams_manualTelemetry:
  "fst (getRequiredParams env a (manualTelemetry ev m f p w)) = fst (getRequiredParams env a w)"
  by (simp add: getRequiredParams_def Apps_get_def Let_def catch_handleAllError_def
        manualTelemetry_def request_def split: sum.splits option.splits)

text \<open>
  C8, as amended. For every \<open>appId\<close> and auth scheme name,
  \<open>getRequiredParamsForAuthScheme\<close> returns exactly
  \<open>getRequiredParams(appId).authSchemes[authScheme]\<close>, a property read on a plain object;
  no not-found error is raised. The result is \<open>undefined\<close> exactly when the name is not
  the mode of a scheme of the app and is not a property the object inherits: a member of
  \<open>Object.prototype\<close> or, when a scheme of the app has the mode \<open>__proto__\<close>, one of the
  three bucket names.

  The input is one that \<open>ZGetRequiredParamsForAuthScheme.parse\<close> accepts (the schema is
  not in the sources). A failure of \<open>getRequiredParams\<close> is passed on, normalised once
  more.
\<close>

theorem getRequiredParamsForAuthScheme_indexes:
  assumes "ZGetRequiredParamsForAuthScheme env
             (JObj [(''appId'', JStr a), (''authScheme'', JStr s)])"
  shows "fst (getRequiredParamsForAuthScheme env a s w) =
           (case fst (getRequiredParams env a w) of
              Inl e \<Rightarrow> Inl (CEG_handleAllError e)
            | Inr params' \<Rightarrow> Inr (read_property (authSchemes params') s)) \<and>
         (\<forall>params'. fst (getRequiredParams env a w) = Inr params' \<longrightarrow>
            (fst (getRequiredParamsForAuthScheme env a s w) = Inr Undefined) =
              (s \<notin> set (availableAuthSchemes params') \<and>
               s \<notin> set Object_prototype_names \<and>
               (''__proto__'' \<in> set (availableAuthSchemes params') \<longrightarrow>
                  s \<notin> {''required_fields'', ''optional_fields'', ''expected_from_user''})))"
proof -
  let ?w1 = "manualTelemetry SDK_METHOD_INVOKED ''getRequiredParamsForAuthScheme'' Apps_fileName
               (JObj [(''appId'', JStr a), (''authScheme'', JStr s)]) w"
  have "fst (getRequiredParamsForAuthScheme env a s w) =
          (case fst (getRequiredParams env a ?w1) of
              Inl e \<Rightarrow> Inl (CEG_handleAllError e)
            | Inr params' \<Rightarrow> Inr (read_property (authSchemes params') s))"
    using assms
    by (simp add: getRequiredParamsForAuthScheme_def Let_def catch_handleAllError_def
          split: prod.splits sum.splits)
  then have eq: "fst (getRequiredParamsForAuthScheme env a s w) =
          (case fst (getRequiredParams env a w) of
              Inl e \<Rightarrow> Inl (CEG_handleAllError e)
            | Inr params' \<Rightarrow> Inr (read_property (authSchemes params') s))"
    by (simp only: getRequiredParams_manualTelemetry)
  have "(fst (getRequiredParamsForAuthScheme env a s w) = Inr Undefined) =
              (s \<notin> set (availableAuthSchemes params') \<and>
               s \<notin> set Object_prototype_names \<and>
               (''__proto__'' \<in> set (availableAuthSchemes params') \<longrightarrow>
                  s \<notin> {''required_fields'', ''optional_fields'', ''expected_from_user''}))"
    if p: "fst (getRequiredParams env a w) = Inr params'" for params'
  proof -
    from p obtain schemes where
      s: "params' = \<lparr>availableAuthSchemes = map mode schemes,
                     authSchemes = build_authSchemesObject schemes\<rparr>"
      by (blast dest: getRequiredParams_Inr)
    show ?thesis
    proof (cases "s \<in> mode ` set schemes")
      case True
      then show ?thesis
        using read_property_mode [of s schemes] by (simp add: eq p s)
    next
      case False
      then show ?thesis
        using read_property_other [of s schemes] by (simp add: eq p s)
    qed
  qed
  with eq show ?thesis by blast
qed

text \<open>
  The theorem at the app with the single scheme \<open>OAUTH2\<close>: the key \<open>BASIC\<close> gives
  \<open>undefined\<close>, the key \<open>OAUTH2\<close> its entry. And at an app whose only scheme has the mode
  \<open>__proto__\<close>: the key \<open>BASIC\<close> gives \<open>undefined\<close>, the key \<open>required_fields\<close> the
  bucket of the entry that has become the prototype.
\<close>

theorem getRequiredParamsForAuthScheme_indexes_witness:
  "ZGetRequiredParamsForAuthScheme env_github
     (JObj [(''appId'', JStr ''github''), (''authScheme'', JStr ''BASIC'')]) \<and>
   fst (getRequiredParams env_github ''github'' world0) =
     Inr \<lparr>availableAuthSchemes = [''OAUTH2''],
          authSchemes = build_authSchemesObject [oauth2_scheme]\<rparr> \<and>
   ''BASIC'' \<notin> set [''OAUTH2''] \<and>
   ''BASIC'' \<notin> set Object_prototype_names \<and>
   ''__proto__'' \<notin> set [''OAUTH2''] \<and>
   fst (getRequiredParamsForAuthScheme env_github ''github'' ''BASIC'' world0) = Inr Undefined \<and>
   fst (getRequiredParamsForAuthScheme env_github ''github'' ''OAUTH2'' world0) =
     Inr (Entry \<lparr>required_fields = [''subdomain''], optional_fields = [''scopes''],
                 expected_from_user = [''client_id'']\<rparr>) \<and>
   ZGetRequiredParamsForAuthScheme env_proto
     (JObj [(''appId'', JStr ''app''), (''authScheme'', JStr ''BASIC'')]) \<and>
   fst (getRequiredParams env_proto ''app'' world0) =
     Inr \<lparr>availableAuthSchemes = [''__proto__''],
          authSchemes =
            \<lparr>own_properties = Map.empty,
             prototype_entry = Some \<lparr>required_fields = [''token''], optional_fields = [],
                                     expected_from_user = []\<rparr>\<rparr>\<rparr> \<and>
   ''__proto__'' \<in> set [''__proto__''] \<and>
   ''BASIC'' \<notin> {''required_fields'', ''optional_fields'', ''expected_from_user''} \<and>
   fst (getRequiredParamsForAuthScheme env_proto ''app'' ''BASIC'' world0) = Inr Undefined \<and>
   fst (getRequiredParamsForAuthScheme env_proto ''app'' ''required_fields'' world0) =
     Inr (Bucket [''token''])"
proof -
  have v: "ZGetRequiredParamsForAuthScheme env_github (JObj [(''appId'', JStr ''github''), (''authScheme'', JStr k)])" for k
    by (simp add: env_github_simps)
  have r: "fst (getRequiredParams env_github ''github'' world0) =
     Inr \<lparr>availableAuthSchemes = [''OAUTH2''],
          authSchemes = build_authSchemesObject [oauth2_scheme]\<rparr>"
    using getRequiredParams_returns [of env_github "''github''" world0 github_app "[oauth2_scheme]"]
    by (simp add: env_github_simps github_app_def oauth2_scheme_def)
  have b: "read_property (build_authSchemesObject [oauth2_scheme]) ''OAUTH2'' =
             Entry \<lparr>required_fields = [''subdomain''], optional_fields = [''scopes''],
                expected_from_user = [''client_id'']\<rparr>"
    using read_property_mode [of "''OAUTH2''" "[oauth2_scheme]"]
    by (simp add: scheme_entry_oauth2) (simp add: oauth2_scheme_def)
  have n: "''BASIC'' \<notin> set Object_prototype_names"
    by (simp add: Object_prototype_names_def)
  have u: "fst (getRequiredParamsForAuthScheme env_github ''github'' ''BASIC'' world0)
             = Inr Undefined"
    using getRequiredParamsForAuthScheme_indexes
            [OF v, of "''BASIC''" world0, THEN conjunct2, THEN spec, THEN mp, OF r] n
    by simp
  have e: "fst (getRequiredParamsForAuthScheme env_github ''github'' ''OAUTH2'' world0) =
     Inr (Entry \<lparr>required_fields = [''subdomain''], optional_fields = [''scopes''],
                 expected_from_user = [''client_id'']\<rparr>)"
    using getRequiredParamsForAuthScheme_indexes [OF v, of "''OAUTH2''" world0, THEN conjunct1]
    by (simp add: r b)
  have vp: "ZGetRequiredParamsForAuthScheme env_proto (JObj [(''appId'', JStr ''app''), (''authScheme'', JStr k)])" for k
    by (simp add: env_proto_def env0_def)
  have rp: "fst (getRequiredParams env_proto ''app'' world0) =
     Inr \<lparr>availableAuthSchemes = [''__proto__''],
          authSchemes =
            \<lparr>own_properties = Map.empty,
             prototype_entry = Some \<lparr>required_fields = [''token''], optional_fields = [],
                                     expected_from_user = []\<rparr>\<rparr>\<rparr>"
    by (simp add: getRequiredParams_def Apps_get_def Let_def catch_handleAllError_def
        manualTelemetry_def nullish_def env_proto_def proto_app_def env0_def world0_def
        request_def build_authSchemesObject_def add_scheme_def scheme_entry_def
        classify_field_def assign_property_def empty_object_def)
  have up: "fst (getRequiredParamsForAuthScheme env_proto ''app'' ''BASIC'' world0)
             = Inr Undefined"
    using getRequiredParamsForAuthScheme_indexes
            [OF vp, of "''BASIC''" world0, THEN conjunct2, THEN spec, THEN mp, OF rp] n
    by simp
  have bp: "fst (getRequiredParamsForAuthScheme env_proto ''app'' ''required_fields'' world0) =
     Inr (Bucket [''token''])"
    using getRequiredParamsForAuthScheme_indexes
            [OF vp, of "''required_fields''" world0, THEN conjunct1]
    by (simp add: rp read_property_def)
  show ?thesis
    using v vp r n u e rp up bp by simp
qed

text \<open>
  C8 as stated fails at the key \<open>toString\<close>: it is not a key of the mapping, and the read
  gives the inherited \<open>Object.prototype.toString\<close>, not \<open>undefined\<close>.
\<close>

theorem getRequiredParamsForAuthScheme_inherited_name:
  "fst (getRequiredParams env_github ''github'' world0) =
     Inr \<lparr>availableAuthSchemes = [''OAUTH2''],
          authSchemes =
            \<lparr>own_properties =
               [''OAUTH2'' \<mapsto> \<lparr>required_fields = [''subdomain''], optional_fields = [''scopes''],
                                expected_from_user = [''client_id'']\<rparr>],
             prototype_entry = None\<rparr>\<rparr> \<and>
   fst (getRequiredParamsForAuthScheme env_github ''github'' ''toString'' world0) =
     Inr (ObjectPrototype ''toString'')"
  by (simp add: getRequiredParamsForAuthScheme_def getRequiredParams_def Apps_get_def Let_def
        catch_handleAllError_def manualTelemetry_def nullish_def env_github_def github_app_def
        oauth2_scheme_def env0_def world0_def request_def build_authSchemesObject_def
        add_scheme_def scheme_entry_def classify_field_def assign_property_def
        empty_object_def read_property_def Object_prototype_names_def)

section \<open>Properties of the polling loop\<close>

declare waitUntilActive_loop.simps [simp del]

lemma waitUntilActive_loop_Inr:
  "waitUntilActive_loop env cr startTime timeout w = (Inr c, w') \<Longrightarrow>
   read_prop c ''status'' = JStr ''ACTIVE''"
proof (induction env cr startTime timeout w rule: waitUntilActive_loop.induct)
  case (1 env cr startTime timeout w)
  from "1.prems" show ?case
    by (subst (asm) waitUntilActive_loop.simps)
       (auto simp: Let_def split: if_splits sum.splits dest: "1.IH" [OF _ refl refl])
qed

lemma read_prop_truthy: "read_prop c k \<noteq> JUndefined \<Longrightarrow> truthy c"
  by (cases c) simp_all

lemma waitUntilActive_loop_first_active:
  assumes "clock w - startTime < timeout * 1000"
      and "getConnection env (length (requests w)) (connection_path cr) = Inr c"
      and "read_prop c ''status'' = JStr ''ACTIVE''"
  shows "waitUntilActive_loop env cr startTime timeout w =
           (Inr c, request env GetConnection (connection_path cr) w)"
proof -
  have "truthy c"
    using assms(3) by (intro read_prop_truthy [of c "''status''"]) simp
  with assms show ?thesis
    by (subst waitUntilActive_loop.simps) (simp add: Let_def)
qed

lemma waitUntilActive_loop_pending:
  assumes "clock w - startTime < timeout * 1000"
      and "getConnection env (length (requests w)) (connection_path cr) = Inr c"
      and "truthy c" and "read_prop c ''status'' \<noteq> JStr ''ACTIVE''"
  shows "waitUntilActive_loop env cr startTime timeout w =
           waitUntilActive_loop env cr startTime timeout
             (sleep env 1000 (request env GetConnection (connection_path cr) w))"
  using assms by (subst waitUntilActive_loop.simps) (simp add: Let_def)

lemma waitUntilActive_loop_deadline:
  "\<not> clock w - startTime < timeout * 1000 \<Longrightarrow>
   waitUntilActive_loop env cr startTime timeout w =
     (Inl (Error ''Connection did not become active within the timeout period.''), w)"
  by (subst waitUntilActive_loop.simps) simp

lemma polls_left:
  fixes T e e2 d :: int
  assumes "0 < d" "e < T" "e + d \<le> e2"
  shows "1 + nat ((T - e2 + d - 1) div d) \<le> nat ((T - e + d - 1) div d)"
proof -
  have "(T - e2 + d - 1) div d \<le> (T - e + d - 1 + (- 1) * d) div d"
    using assms(1,3) by (intro zdiv_mono1) simp_all
  also have "\<dots> = - 1 + (T - e + d - 1) div d"
    using assms(1) by (intro div_mult_self1) simp
  finally have a: "(T - e2 + d - 1) div d \<le> (T - e + d - 1) div d - 1" by simp
  have "d div d \<le> (T - e + d - 1) div d"
    using assms(1,2) by (intro zdiv_mono1) simp_all
  then have b: "1 \<le> (T - e + d - 1) div d"
    using assms(1) by simp
  from a b show ?thesis by linarith
qed

lemma waitUntilActive_loop_never_active:
  assumes "\<forall>n. \<exists>c. getConnection env n (connection_path cr) = Inr c \<and> truthy c \<and>
                    read_prop c ''status'' \<noteq> JStr ''ACTIVE''"
  shows "fst (waitUntilActive_loop env cr startTime timeout w) =
           Inl (Error ''Connection did not become active within the timeout period.'') \<and>
         length (requests w) \<le> length (requests (snd (waitUntilActive_loop env cr startTime timeout w))) \<and>
         timers (snd (waitUntilActive_loop env cr startTime timeout w)) =
           timers w @ replicate
             (length (requests (snd (waitUntilActive_loop env cr startTime timeout w)))
                - length (requests w)) 1000"
  using assms
proof (induction env cr startTime timeout w rule: waitUntilActive_loop.induct)
  case (1 env cr startTime timeout w)
  show ?case
  proof (cases "clock w - startTime < timeout * 1000")
    case False
    then show ?thesis by (simp add: waitUntilActive_loop_deadline)
  next
    case True
    from "1.prems" obtain c where c:
      "getConnection env (length (requests w)) (connection_path cr) = Inr c"
      "truthy c" "read_prop c ''status'' \<noteq> JStr ''ACTIVE''"
      by blast
    let ?w2 = "sleep env 1000 (request env GetConnection (connection_path cr) w)"
    let ?r = "waitUntilActive_loop env cr startTime timeout ?w2"
    have step: "waitUntilActive_loop env cr startTime timeout w = ?r"
      using True c by (rule waitUntilActive_loop_pending)
    have ih: "fst ?r = Inl (Error ''Connection did not become active within the timeout period.'') \<and>
         length (requests ?w2) \<le> length (requests (snd ?r)) \<and>
         timers (snd ?r) = timers ?w2 @ replicate (length (requests (snd ?r)) - length (requests ?w2)) 1000"
      using "1.IH" [OF True refl refl c(1)] c(2,3) "1.prems" by simp
    have len2: "length (requests ?w2) = Suc (length (requests w))"
      by (simp add: sleep_def request_def)
    have tim2: "timers ?w2 = timers w @ [1000]"
      by (simp add: sleep_def request_def)
    have rep: "timers ?w2 @ replicate (length (requests (snd ?r)) - length (requests ?w2)) 1000
                 = timers w @ replicate (length (requests (snd ?r)) - length (requests w)) 1000"
    proof -
      have "Suc (length (requests w)) \<le> length (requests (snd ?r))"
        using ih len2 by simp
      then have "length (requests (snd ?r)) - length (requests w)
                   = Suc (length (requests (snd ?r)) - length (requests ?w2))"
        using len2 by simp
      then show ?thesis
        by (simp add: tim2)
    qed
    show ?thesis
      unfolding step using ih len2 rep by (simp del: replicate_Suc)
  qed
qed

lemma waitUntilActive_loop_polls:
  assumes "\<forall>n. \<exists>c. getConnection env n (connection_path cr) = Inr c \<and> truthy c \<and>
                    read_prop c ''status'' \<noteq> JStr ''ACTIVE''"
      and "0 < d" and "\<forall>n. d \<le> slept env n"
  shows "length (requests (snd (waitUntilActive_loop env cr startTime timeout w))) \<le>
           length (requests w) +
           nat ((timeout * 1000 - (clock w - startTime) + int d - 1) div int d)"
  using assms
proof (induction env cr startTime timeout w rule: waitUntilActive_loop.induct)
  case (1 env cr startTime timeout w)
  show ?case
  proof (cases "clock w - startTime < timeout * 1000")
    case False
    then show ?thesis by (simp add: waitUntilActive_loop_deadline)
  next
    case True
    from "1.prems" obtain c where c:
      "getConnection env (length (requests w)) (connection_path cr) = Inr c"
      "truthy c" "read_prop c ''status'' \<noteq> JStr ''ACTIVE''"
      by blast
    let ?w2 = "sleep env 1000 (request env GetConnection (connection_path cr) w)"
    let ?r = "waitUntilActive_loop env cr startTime timeout ?w2"
    have step: "waitUntilActive_loop env cr startTime timeout w = ?r"
      using True c by (rule waitUntilActive_loop_pending)
    have ih: "length (requests (snd ?r)) \<le>
           length (requests ?w2) +
           nat ((timeout * 1000 - (clock ?w2 - startTime) + int d - 1) div int d)"
      using "1.IH" [OF True refl refl c(1)] c(2,3) "1.prems" by simp
    have len2: "length (requests ?w2) = Suc (length (requests w))"
      by (simp add: sleep_def request_def)
    have "d \<le> max 1 (slept env (Suc (length (requests w))))"
      using "1.prems"(3) by (simp add: le_max_iff_disj)
    then have clk2: "(clock w - startTime) + int d \<le> clock ?w2 - startTime"
      by (simp add: sleep_def request_def)
    have bound: "1 + nat ((timeout * 1000 - (clock ?w2 - startTime) + int d - 1) div int d)
                   \<le> nat ((timeout * 1000 - (clock w - startTime) + int d - 1) div int d)"
      using "1.prems"(2) True clk2 by (intro polls_left) simp_all
    show ?thesis
      unfolding step using ih len2 bound by simp
  qed
qed

text \<open>
  C9. Whenever \<open>waitUntilActive\<close> returns rather than throws, the connection it returns
  has status \<open>"ACTIVE"\<close>.
\<close>

theorem waitUntilActive_returns_only_active:
  assumes "fst (waitUntilActive env cr timeout w) = Inr connection"
  shows "read_prop connection ''status'' = JStr ''ACTIVE''"
proof -
  obtain r w' where r: "waitUntilActive_loop env cr (clock w) timeout w = (r, w')"
    by (cases "waitUntilActive_loop env cr (clock w) timeout w")
  with assms have "r = Inr connection"
    by (cases r) (simp_all add: waitUntilActive_def catch_handleAllError_def)
  with r show ?thesis
    by (auto dest: waitUntilActive_loop_Inr)
qed

text \<open>
  A run in which the third poll finds the account active: three requests, two sleeps.
\<close>

theorem waitUntilActive_returns_only_active_witness:
  "fst (waitUntilActive env_becomes_active request0 60 world0) =
     Inr (JObj [(''id'', JStr ''ca-1''), (''status'', JStr ''ACTIVE'')]) \<and>
   length (requests (snd (waitUntilActive env_becomes_active request0 60 world0))) = 3 \<and>
   read_prop (JObj [(''id'', JStr ''ca-1''), (''status'', JStr ''ACTIVE'')]) ''status''
     = JStr ''ACTIVE''"
proof -
  have r: "waitUntilActive env_becomes_active request0 60 world0 =
     (Inr (JObj [(''id'', JStr ''ca-1''), (''status'', JStr ''ACTIVE'')]),
      \<lparr>telemetry = [],
       requests = [(GetConnection, connection_path request0),
                   (GetConnection, connection_path request0),
                   (GetConnection, connection_path request0)],
       timers = [1000, 1000], clock = 2360\<rparr>)"
    by (simp add: waitUntilActive_def waitUntilActive_loop.simps env_becomes_active_def
          env0_def world0_def request_def sleep_def catch_handleAllError_def Let_def)
  then have f: "fst (waitUntilActive env_becomes_active request0 60 world0) =
     Inr (JObj [(''id'', JStr ''ca-1''), (''status'', JStr ''ACTIVE'')])"
    by simp
  show ?thesis
    using f r waitUntilActive_returns_only_active [OF f] by simp
qed

text \<open>
  C6. When the first fetch of the connected account yields status \<open>"ACTIVE"\<close>,
  \<open>waitUntilActive\<close> returns that connection after this one request and without any
  sleep. When every fetch yields an account that is not active and the clock moves forward
  over every sleep, it fails with the timeout error, and every request is followed by one
  sleep of 1000 ms. How many requests are made depends on what the clock shows after a
  sleep: if every sleep shows at least \<open>d\<close> milliseconds, at most \<open>timeout * 1000 / d\<close>
  (rounded up) requests are made. With \<open>timeout = 1\<close> that is exactly one request and one
  sleep when every sleep shows its full 1000 ms, and at most two requests when every sleep
  shows at least 500 ms (a sleep that shows 999 ms is followed by a second request).

  The first part needs \<open>0 < timeout\<close>, without which no fetch is made. A request takes its
  latency on the clock, whatever that is. All that is assumed of the timer is written as
  a hypothesis on \<open>slept\<close>.
\<close>

theorem waitUntilActive_timing:
  "(0 < timeout \<and>
    getConnection env (length (requests w)) (connection_path cr) = Inr connection \<and>
    read_prop connection ''status'' = JStr ''ACTIVE'' \<longrightarrow>
      waitUntilActive env cr timeout w =
        (Inr connection, request env GetConnection (connection_path cr) w)) \<and>
   ((\<forall>n. \<exists>c. getConnection env n (connection_path cr) = Inr c \<and> truthy c \<and>
              read_prop c ''status'' \<noteq> JStr ''ACTIVE'') \<and>
    (\<forall>n. 0 < slept env n) \<longrightarrow>
      fst (waitUntilActive env cr timeout w) =
        Inl (CEG_handleAllError
              (Error ''Connection did not become active within the timeout period.'')) \<and>
      timers (snd (waitUntilActive env cr timeout w)) =
        timers w @ replicate (length (requests (snd (waitUntilActive env cr timeout w)))
                               - length (requests w)) 1000 \<and>
      (\<forall>d. 0 < d \<and> (\<forall>n. d \<le> slept env n) \<longrightarrow>
         length (requests (snd (waitUntilActive env cr timeout w)))
           \<le> length (requests w) + nat ((timeout * 1000 + int d - 1) div int d)) \<and>
      (timeout = 1 \<and> (\<forall>n. 1000 \<le> slept env n) \<longrightarrow>
         snd (waitUntilActive env cr timeout w) =
           sleep env 1000 (request env GetConnection (connection_path cr) w)) \<and>
      (timeout = 1 \<and> (\<forall>n. 500 \<le> slept env n) \<longrightarrow>
         length (requests (snd (waitUntilActive env cr timeout w)))
           \<le> length (requests w) + 2))"
proof (intro conjI impI allI)
  assume a: "0 < timeout \<and>
    getConnection env (length (requests w)) (connection_path cr) = Inr connection \<and>
    read_prop connection ''status'' = JStr ''ACTIVE''"
  then have "clock w - clock w < timeout * 1000" by simp
  with a have "waitUntilActive_loop env cr (clock w) timeout w =
           (Inr connection, request env GetConnection (connection_path cr) w)"
    by (intro waitUntilActive_loop_first_active) simp_all
  then show "waitUntilActive env cr timeout w =
        (Inr connection, request env GetConnection (connection_path cr) w)"
    by (simp add: waitUntilActive_def catch_handleAllError_def)
next
  assume h: "(\<forall>n. \<exists>c. getConnection env n (connection_path cr) = Inr c \<and> truthy c \<and>
              read_prop c ''status'' \<noteq> JStr ''ACTIVE'') \<and>
    (\<forall>n. 0 < slept env n)"
  then have na: "\<forall>n. \<exists>c. getConnection env n (connection_path cr) = Inr c \<and> truthy c \<and>
              read_prop c ''status'' \<noteq> JStr ''ACTIVE''"
    by (rule conjunct1)
  let ?l = "waitUntilActive_loop env cr (clock w) timeout w"
  note l = waitUntilActive_loop_never_active [OF na, of "clock w" timeout w]
  have s: "snd (waitUntilActive env cr timeout w) = snd ?l"
    by (cases ?l) (auto simp: waitUntilActive_def catch_handleAllError_def split: sum.splits)
  have f: "fst (waitUntilActive env cr timeout w) =
             (case fst ?l of Inl e \<Rightarrow> Inl (CEG_handleAllError e) | Inr v \<Rightarrow> Inr v)"
    by (cases ?l) (auto simp: waitUntilActive_def catch_handleAllError_def split: sum.splits)
  show "fst (waitUntilActive env cr timeout w) =
        Inl (CEG_handleAllError
              (Error ''Connection did not become active within the timeout period.''))"
    using l by (simp add: f)
  show "timers (snd (waitUntilActive env cr timeout w)) =
        timers w @ replicate (length (requests (snd (waitUntilActive env cr timeout w)))
                               - length (requests w)) 1000"
    using l by (simp add: s)
  {
    fix d
    assume d: "0 < d \<and> (\<forall>n. d \<le> slept env n)"
    show "length (requests (snd (waitUntilActive env cr timeout w)))
           \<le> length (requests w) + nat ((timeout * 1000 + int d - 1) div int d)"
      using waitUntilActive_loop_polls [OF na, of d "clock w" timeout w] d
      by (simp add: s)
  }
  {
    assume t: "timeout = 1 \<and> (\<forall>n. 1000 \<le> slept env n)"
    from na obtain c where c:
      "getConnection env (length (requests w)) (connection_path cr) = Inr c"
      "truthy c" "read_prop c ''status'' \<noteq> JStr ''ACTIVE''"
      by blast
    let ?w2 = "sleep env 1000 (request env GetConnection (connection_path cr) w)"
    have "1000 \<le> max 1 (slept env (Suc (length (requests w))))"
      using t by (simp add: le_max_iff_disj)
    then have k: "clock w + 1000 \<le> clock ?w2"
      by (simp add: sleep_def request_def)
    have "?l = waitUntilActive_loop env cr (clock w) timeout ?w2"
      using c t by (intro waitUntilActive_loop_pending) simp_all
    also have "\<dots> = (Inl (Error ''Connection did not become active within the timeout period.''), ?w2)"
      using t k by (intro waitUntilActive_loop_deadline) simp
    finally show "snd (waitUntilActive env cr timeout w) = ?w2"
      by (simp add: s)
  }
  {
    assume t: "timeout = 1 \<and> (\<forall>n. 500 \<le> slept env n)"
    have "length (requests (snd ?l)) \<le>
            length (requests w) + nat ((timeout * 1000 - (clock w - clock w) + int 500 - 1) div int 500)"
      using t by (intro waitUntilActive_loop_polls [OF na]) simp_all
    moreover have "nat ((timeout * 1000 - (clock w - clock w) + int 500 - 1) div int 500) = 2"
      using t by simp
    ultimately show "length (requests (snd (waitUntilActive env cr timeout w)))
           \<le> length (requests w) + 2"
      by (simp only: s)
  }
qed

text \<open>
  Three backends: one that answers \<open>ACTIVE\<close> at once (timeout 60), and two that always
  answer \<open>INITIATED\<close> (timeout 1), one whose sleeps show 1000 ms and one whose sleeps show
  999 ms (with requests that take no time on the clock) and so lead to a second request.
\<close>

theorem waitUntilActive_timing_witness:
  "0 < (60::int) \<and>
   getConnection env_active (length (requests world0)) (connection_path request0) =
     Inr (JObj [(''id'', JStr ''ca-1''), (''status'', JStr ''ACTIVE'')]) \<and>
   read_prop (JObj [(''id'', JStr ''ca-1''), (''status'', JStr ''ACTIVE'')]) ''status''
     = JStr ''ACTIVE'' \<and>
   waitUntilActive env_active request0 60 world0 =
     (Inr (JObj [(''id'', JStr ''ca-1''), (''status'', JStr ''ACTIVE'')]),
      \<lparr>telemetry = [], requests = [(GetConnection, connection_path request0)],
       timers = [], clock = 120\<rparr>) \<and>
   (\<forall>n. \<exists>c. getConnection env_pending n (connection_path request0) = Inr c \<and> truthy c \<and>
             read_prop c ''status'' \<noteq> JStr ''ACTIVE'') \<and>
   (\<forall>n. 0 < slept env_pending n) \<and> (\<forall>n. 1000 \<le> slept env_pending n) \<and>
   fst (waitUntilActive env_pending request0 1 world0) =
     Inl (CEG_handleAllError
           (Error ''Connection did not become active within the timeout period.'')) \<and>
   snd (waitUntilActive env_pending request0 1 world0) =
     \<lparr>telemetry = [], requests = [(GetConnection, connection_path request0)],
      timers = [1000], clock = 1120\<rparr> \<and>
   (\<forall>n. \<exists>c. getConnection env_early n (connection_path request0) = Inr c \<and> truthy c \<and>
             read_prop c ''status'' \<noteq> JStr ''ACTIVE'') \<and>
   (\<forall>n. 0 < slept env_early n) \<and>
   0 < (999::nat) \<and> (\<forall>n. 999 \<le> slept env_early n) \<and> (\<forall>n. 500 \<le> slept env_early n) \<and>
   fst (waitUntilActive env_early request0 1 world0) =
     Inl (CEG_handleAllError
           (Error ''Connection did not become active within the timeout period.'')) \<and>
   snd (waitUntilActive env_early request0 1 world0) =
     \<lparr>telemetry = [],
      requests = [(GetConnection, connection_path request0),
                  (GetConnection, connection_path request0)],
      timers = [1000, 1000], clock = 1998\<rparr> \<and>
   length (requests (snd (waitUntilActive env_early request0 1 world0)))
     \<le> length (requests world0) + nat ((1 * 1000 + int 999 - 1) div int 999)"
proof -
  have a: "0 < (60::int) \<and>
      getConnection env_active (length (requests world0)) (connection_path request0) =
        Inr (JObj [(''id'', JStr ''ca-1''), (''status'', JStr ''ACTIVE'')]) \<and>
      read_prop (JObj [(''id'', JStr ''ca-1''), (''status'', JStr ''ACTIVE'')]) ''status''
        = JStr ''ACTIVE''"
    by (simp add: env_active_def env0_def)
  have na: "\<forall>n. \<exists>c. getConnection env_pending n (connection_path request0) = Inr c \<and>
              truthy c \<and> read_prop c ''status'' \<noteq> JStr ''ACTIVE''"
    by (simp add: env_pending_def env0_def)
  have ne: "\<forall>n. \<exists>c. getConnection env_early n (connection_path request0) = Inr c \<and>
              truthy c \<and> read_prop c ''status'' \<noteq> JStr ''ACTIVE''"
    by (simp add: env_early_def env_pending_def env0_def)
  have sp: "(\<forall>n. 0 < slept env_pending n) \<and> (\<forall>n. 1000 \<le> slept env_pending n)"
    by (simp add: env_pending_def env0_def)
  have se: "(\<forall>n. 0 < slept env_early n) \<and> (\<forall>n. 999 \<le> slept env_early n) \<and>
            (\<forall>n. 500 \<le> slept env_early n)"
    by (simp add: env_early_def)
  have w1: "request env_active GetConnection (connection_path request0) world0 =
      \<lparr>telemetry = [], requests = [(GetConnection, connection_path request0)],
       timers = [], clock = 120\<rparr>"
    by (simp add: request_def world0_def env_active_def env0_def)
  have w2: "sleep env_pending 1000 (request env_pending GetConnection (connection_path request0) world0) =
      \<lparr>telemetry = [], requests = [(GetConnection, connection_path request0)],
       timers = [1000], clock = 1120\<rparr>"
    by (simp add: sleep_def request_def world0_def env_pending_def env0_def)
  have w3: "snd (waitUntilActive env_early request0 1 world0) =
     \<lparr>telemetry = [],
      requests = [(GetConnection, connection_path request0),
                  (GetConnection, connection_path request0)],
      timers = [1000, 1000], clock = 1998\<rparr>"
    by (simp add: waitUntilActive_def waitUntilActive_loop.simps env_early_def env_pending_def
          env0_def world0_def request_def sleep_def Let_def catch_handleAllError_def)
  note p = waitUntilActive_timing [of 1 env_pending world0 request0, THEN conjunct2, THEN mp,
             OF conjI [OF na sp [THEN conjunct1]]]
  note e = waitUntilActive_timing [of 1 env_early world0 request0, THEN conjunct2, THEN mp,
             OF conjI [OF ne se [THEN conjunct1]]]
  have b: "length (requests (snd (waitUntilActive env_early request0 1 world0)))
     \<le> length (requests world0) + nat ((1 * 1000 + int 999 - 1) div int 999)"
    using e [THEN conjunct2, THEN conjunct2, THEN conjunct1, THEN spec, of 999] se
    by simp
  show ?thesis
    using a na ne sp se w1 w2 w3 b p e
      waitUntilActive_timing [of 60 env_active world0 request0
         "JObj [(''id'', JStr ''ca-1''), (''status'', JStr ''ACTIVE'')]"]
    by simp
qed

section \<open>Properties of ConnectedAccounts\<close>



subsection \<open>The missing-field checks of initiate\<close>

lemma catch_handleAllError_Inl:
  "catch_handleAllError r = (Inl e, v) \<Longrightarrow> \<exists>e'. e = ComposioError e' \<and> r = (Inl e', v)"
  by (cases r) (auto simp: catch_handleAllError_def CEG_handleAllError_def split: sum.splits)

lemma Apps_get_Inl: "Apps_get env d v = (Inl e, v') \<Longrightarrow> \<exists>e'. e = ComposioError e'"
  unfolding Apps_get_def Let_def by (blast dest: catch_handleAllError_Inl)

lemma Integrations_create_Inl:
  "Integrations_create env d v = (Inl e, v') \<Longrightarrow> \<exists>e'. e = ComposioError e'"
  unfolding Integrations_create_def Let_def by (blast dest: catch_handleAllError_Inl)

lemma resolve_integrationId_Inl:
  "resolve_integrationId env payload v =
     (Inl (Error ''authMode is required when integrationId is not provided''), v') \<Longrightarrow> False"
  by (auto simp: resolve_integrationId_def Let_def split: if_splits prod.splits sum.splits
        dest: Apps_get_Inl Integrations_create_Inl)

text \<open>
  C10. In \<open>ConnectedAccounts.initiate\<close> the branch that throws
  \<open>"authMode is required when integrationId is not provided"\<close> is unreachable: the
  enclosing block is entered only when \<open>authMode\<close> is truthy, so no input makes
  \<open>initiate\<close> throw that error.
\<close>

theorem initiate_never_throws_authMode_required:
  "fst (ConnectedAccounts_initiate env payload w) \<noteq>
     Inl (CEG_handleAllError (Error ''authMode is required when integrationId is not provided''))"
proof
  assume a: "fst (ConnectedAccounts_initiate env payload w) =
     Inl (CEG_handleAllError (Error ''authMode is required when integrationId is not provided''))"
  obtain v where "ConnectedAccounts_initiate env payload w =
     (Inl (CEG_handleAllError (Error ''authMode is required when integrationId is not provided'')), v)"
    using a by (cases "ConnectedAccounts_initiate env payload w") simp
  then show False
    unfolding ConnectedAccounts_initiate_def Let_def
    by (auto simp: CEG_handleAllError_def
          dest!: catch_handleAllError_Inl resolve_integrationId_Inl
          split: if_splits prod.splits sum.splits)
qed
subsection \<open>Telemetry of the ConnectionRequest methods\<close>

lemma telemetry_request [simp]: "telemetry (request env ep options w) = telemetry w"
  by (simp add: request_def)

lemma telemetry_sleep [simp]: "telemetry (sleep env ms w) = telemetry w"
  by (simp add: sleep_def)

lemma snd_catch_handleAllError [simp]: "snd (catch_handleAllError r) = snd r"
  by (cases r) (simp add: catch_handleAllError_def split: sum.splits)

lemma waitUntilActive_loop_telemetry:
  "telemetry (snd (waitUntilActive_loop env cr startTime timeout w)) = telemetry w"
proof (induction env cr startTime timeout w rule: waitUntilActive_loop.induct)
  case (1 env cr startTime timeout w)
  show ?case
    by (subst waitUntilActive_loop.simps)
       (auto simp: Let_def split: sum.splits dest: "1.IH" [OF _ refl refl])
qed

text \<open>
  C4 says that every public method emits exactly one telemetry event, in particular
  \<open>saveUserAccessData\<close>, \<open>getAuthInfo\<close> and \<open>waitUntilActive\<close> of \<open>ConnectionRequest\<close>.
  These three leave the telemetry log as it was, for every input, whereas \<open>Apps.list\<close>
  appends its event.
\<close>

theorem ConnectionRequest_methods_emit_no_telemetry:
  "telemetry (snd (saveUserAccessData env cr data w)) = telemetry w \<and>
   telemetry (snd (getAuthInfo env cr data w)) = telemetry w \<and>
   telemetry (snd (waitUntilActive env cr timeout w)) = telemetry w \<and>
   telemetry (snd (Apps_list env w)) =
     telemetry w @ [\<lparr>event = SDK_METHOD_INVOKED, method_name = ''list'',
                     file_name = ''js/src/sdk/models/apps.ts'', params = JObj []\<rparr>]"
proof (intro conjI)
  show "telemetry (snd (saveUserAccessData env cr data w)) = telemetry w"
    by (simp add: saveUserAccessData_def Let_def split: sum.splits)
  show "telemetry (snd (getAuthInfo env cr data w)) = telemetry w"
    by (simp add: getAuthInfo_def Let_def split: sum.splits)
  show "telemetry (snd (waitUntilActive env cr timeout w)) = telemetry w"
    by (simp add: waitUntilActive_def waitUntilActive_loop_telemetry)
  show "telemetry (snd (Apps_list env w)) =
     telemetry w @ [\<lparr>event = SDK_METHOD_INVOKED, method_name = ''list'',
                     file_name = ''js/src/sdk/models/apps.ts'', params = JObj []\<rparr>]"
    by (simp add: Apps_list_def Let_def manualTelemetry_def Apps_fileName_def
          split: sum.splits option.splits)
qed

subsection \<open>Calls that reach the backend unchecked\<close>

lemma initiate_skips_checks_without_authMode:
  assumes "\<not> nullish payload"
      and "\<not> truthy (read_prop payload ''authMode'')"
  shows "resolve_integrationId env payload w = (Inr (read_prop payload ''integrationId''), w)"
    and "\<forall>m. fst (ConnectedAccounts_initiate env payload w) \<noteq> Inl (CEG_handleAllError (Error m))"
proof -
  show r: "resolve_integrationId env payload w = (Inr (read_prop payload ''integrationId''), w)" for w
    using assms(2) by (simp add: resolve_integrationId_def Let_def)
  show "\<forall>m. fst (ConnectedAccounts_initiate env payload w) \<noteq> Inl (CEG_handleAllError (Error m))"
    using assms(1)
    by (simp add: ConnectedAccounts_initiate_def Let_def r catch_handleAllError_def
          CEG_handleAllError_def split: sum.splits)
qed

text \<open>
  C1 says that \<open>initiate\<close> without \<open>integrationId\<close> and without \<open>authMode\<close> fails with
  a missing-field error before any request for the app or the integration. By the lemma
  above the block that holds the checks is skipped and no error made by the SDK is
  thrown. With the payload \<open>{ appName: "github" }\<close> and a backend that returns no data,
  \<open>initiate\<close> sends the initiate-connection request with \<open>integrationId\<close> undefined and
  returns a \<open>ConnectionRequest\<close> of undefined fields. No app lookup and no integration
  creation is requested.
\<close>

theorem initiate_without_integrationId_and_authMode:
  "ConnectedAccounts_initiate env0 (JObj [(''appName'', JStr ''github'')]) world0 =
     (Inr \<lparr>connectionStatus = JUndefined, connectedAccountId = JUndefined,
           redirectUrl = JUndefined\<rparr>,
      \<lparr>telemetry =
         [\<lparr>event = SDK_METHOD_INVOKED, method_name = ''initiate'',
           file_name = ''js/src/sdk/models/connectedAccounts.ts'',
           params = JObj [(''payload'', JObj [(''appName'', JStr ''github'')])]\<rparr>],
       requests =
         [(InitiateConnection,
           JObj [(''body'', JObj [(''integrationId'', JUndefined),
                                  (''entityId'', JStr ''default''),
                                  (''labels'', JUndefined),
                                  (''redirectUri'', JUndefined),
                                  (''data'', JObj [])])])],
       timers = [], clock = 0\<rparr>)"
  by (simp add: ConnectedAccounts_initiate_def resolve_integrationId_def Let_def
        catch_handleAllError_def manualTelemetry_def request_def nullish_def default_to_def
        new_ConnectionRequest_def optional_read_def ConnectedAccounts_fileName_def
        env0_def world0_def)

text \<open>
  C3 says that every method validates its structured input against its schema before any
  use, in particular \<open>list\<close>, \<open>create\<close> and \<open>initiate\<close> of \<open>ConnectedAccounts\<close>. Whatever
  the schemas and the input are, \<open>list\<close> and \<open>create\<close> hand the input to the backend as it
  is. With schemas that reject every value and the input \<open>{ status: "BOGUS" }\<close>, \<open>list\<close>
  returns the answer of the backend and \<open>initiate\<close> sends its request, while \<open>get\<close> stops
  at \<open>ZSingleConnectionParams.parse\<close> before any request.
\<close>

theorem list_create_initiate_skip_validation:
  "requests (snd (ConnectedAccounts_list env data w)) =
     requests w @ [(ListConnections, JObj [(''query'', data)])] \<and>
   requests (snd (ConnectedAccounts_create env data w)) =
     requests w @ [(InitiateConnection, JObj [(''body'', data), (''throwOnError'', JBool True)])] \<and>
   ConnectedAccounts_list env_strict (JObj [(''status'', JStr ''BOGUS'')]) world0 =
     (Inr JUndefined,
      \<lparr>telemetry =
         [\<lparr>event = SDK_METHOD_INVOKED, method_name = ''list'',
           file_name = ''js/src/sdk/models/connectedAccounts.ts'',
           params = JObj [(''data'', JObj [(''status'', JStr ''BOGUS'')])]\<rparr>],
       requests = [(ListConnections, JObj [(''query'', JObj [(''status'', JStr ''BOGUS'')])])],
       timers = [], clock = 0\<rparr>) \<and>
   requests (snd (ConnectedAccounts_initiate env_strict (JObj [(''status'', JStr ''BOGUS'')]) world0)) =
     [(InitiateConnection,
       JObj [(''body'', JObj [(''integrationId'', JUndefined),
                              (''entityId'', JStr ''default''),
                              (''labels'', JUndefined),
                              (''redirectUri'', JUndefined),
                              (''data'', JObj [])])])] \<and>
   ConnectedAccounts_get env_strict (JObj [(''status'', JStr ''BOGUS'')]) world0 =
     (Inl (CEG_handleAllError (ZodError ''ZSingleConnectionParams'')),
      \<lparr>telemetry =
         [\<lparr>event = SDK_METHOD_INVOKED, method_name = ''get'',
           file_name = ''js/src/sdk/models/connectedAccounts.ts'',
           params = JObj [(''data'', JObj [(''status'', JStr ''BOGUS'')])]\<rparr>],
       requests = [], timers = [], clock = 0\<rparr>)"
proof (intro conjI)
  show "requests (snd (ConnectedAccounts_list env data w)) =
     requests w @ [(ListConnections, JObj [(''query'', data)])]"
    by (simp add: ConnectedAccounts_list_def Let_def manualTelemetry_def request_def
          split: sum.splits)
  show "requests (snd (ConnectedAccounts_create env data w)) =
     requests w @ [(InitiateConnection, JObj [(''body'', data), (''throwOnError'', JBool True)])]"
    by (simp add: ConnectedAccounts_create_def Let_def manualTelemetry_def request_def
          split: sum.splits)
qed (simp_all add: ConnectedAccounts_list_def ConnectedAccounts_initiate_def
        ConnectedAccounts_get_def resolve_integrationId_def
        Let_def catch_handleAllError_def manualTelemetry_def request_def nullish_def
        default_to_def new_ConnectionRequest_def optional_read_def
        ConnectedAccounts_fileName_def env_strict_def env0_def world0_def)

end
